theory Spec2Isabelle
  imports Complex_Main "HOL-Library.Char_ord" "HOL-Library.List_Lexorder"
begin

section \<open>Strings\<close>

text \<open>
  A Go string is a sequence of bytes; \<open>len\<close> and slicing count bytes. It is modelled
  as a \<open>string\<close> (a list of 8-bit characters), so a box-drawing glyph of the tree
  pane is the three bytes of its UTF-8 encoding.
\<close>

definition HasPrefix :: "string \<Rightarrow> string \<Rightarrow> bool" where
  "HasPrefix s p = (take (length p) s = p)"

definition HasSuffix :: "string \<Rightarrow> string \<Rightarrow> bool" where
  "HasSuffix s p = (length p \<le> length s \<and> drop (length s - length p) s = p)"

text \<open>\<open>strings.Contains\<close>: the substring occurs at some byte offset.\<close>

fun Contains :: "string \<Rightarrow> string \<Rightarrow> bool" where
  "Contains [] sub = (sub = [])"
| "Contains (c # s) sub = (HasPrefix (c # s) sub \<or> Contains s sub)"

text \<open>
  \<open>strings.Split(s, sep)\<close> for a separator of one byte (the program only splits at a
  line feed and at the path separator). The result is never empty: the empty string
  splits into one empty field.
\<close>

fun Split :: "string \<Rightarrow> char \<Rightarrow> string list" where
  "Split [] sep = [[]]"
| "Split (c # s) sep =
     (if c = sep then [] # Split s sep
      else (case Split s sep of
              [] \<Rightarrow> [[c]]
            | l # ls \<Rightarrow> (c # l) # ls))"

definition newline :: char where
  "newline = CHR 0x0A"

text \<open>
  \<open>strings.ToLower\<close> is a function of the Go library: it decodes the string as UTF-8
  and maps every letter that has a lower-case form in the Unicode tables to it. The
  tables are outside the program, so the function is a parameter of the model (a field
  of the environment record below), and what is proved holds for every such function.
  On a string of ASCII bytes it is \<open>ascii_ToLower\<close>, which lowers \<open>A\<close>..\<open>Z\<close>;
  \<open>latin1_ToLower\<close> also lowers the capital letters of Latin-1 (U+00C0..U+00DE
  without the multiplication sign, two bytes each in UTF-8), and agrees with the library
  on names made of ASCII and Latin-1 characters. Both are used in examples only.
\<close>

definition lower_char :: "char \<Rightarrow> char" where
  "lower_char c =
     (if CHR ''A'' \<le> c \<and> c \<le> CHR ''Z'' then char_of (of_char c + (32::nat)) else c)"

definition ascii_ToLower :: "string \<Rightarrow> string" where
  "ascii_ToLower s = map lower_char s"

fun latin1_ToLower :: "string \<Rightarrow> string" where
  "latin1_ToLower [] = []"
| "latin1_ToLower [c] = [lower_char c]"
| "latin1_ToLower (c # d # s) =
     (if c = CHR 0xC3 \<and> CHR 0x80 \<le> d \<and> d \<le> CHR 0x9E \<and> d \<noteq> CHR 0x97
      then c # char_of (of_char d + (32::nat)) # latin1_ToLower s
      else lower_char c # latin1_ToLower (d # s))"

section \<open>The file tree\<close>

text \<open>
  \<open>type FileNode struct { Name, Path string; IsDir bool; Children []*FileNode }\<close>.
  A node owns its children, and no child pointer of a tree built by this program is
  nil; a possibly-nil \<open>*FileNode\<close> at an entry point is a \<open>FileNode option\<close>.
\<close>

datatype FileNode =
  FileNode (Name: string) (Path: string) (IsDir: bool) (Children: "FileNode list")

subsection \<open>FlattenTree\<close>

text \<open>The string constants of \<open>FlattenTree\<close>, as UTF-8 bytes.\<close>

definition branch_last :: string where
  "branch_last = [CHR 0xE2, CHR 0x94, CHR 0x94, CHR 0xE2, CHR 0x94, CHR 0x80,
                  CHR 0xE2, CHR 0x94, CHR 0x80, CHR 0x20]"

definition branch_mid :: string where
  "branch_mid = [CHR 0xE2, CHR 0x94, CHR 0x9C, CHR 0xE2, CHR 0x94, CHR 0x80,
                 CHR 0xE2, CHR 0x94, CHR 0x80, CHR 0x20]"

definition bar_indent :: string where
  "bar_indent = [CHR 0xE2, CHR 0x94, CHR 0x82, CHR 0x20, CHR 0x20, CHR 0x20]"

definition blank_indent :: string where
  "blank_indent = [CHR 0x20, CHR 0x20, CHR 0x20, CHR 0x20]"

text \<open>
  \<open>prefix[0:len(prefix)-4]\<close>: Go panics with "slice bounds out of range" when the
  upper bound is negative, so the slice is a partial operation.
\<close>

definition chop4 :: "string \<Rightarrow> string option" where
  "chop4 prefix = (if length prefix < 4 then None else Some (take (length prefix - 4) prefix))"

text \<open>
  \<open>FlattenTree(node, prefix, isLast)\<close>. \<open>None\<close> is the run-time panic of an
  out-of-range slice. The loop over the children is \<open>FlattenTree_children\<close>;
  \<open>childIsLast\<close> (\<open>i == len(node.Children)-1\<close>) holds exactly when no sibling
  follows.
\<close>

fun FlattenTree :: "FileNode \<Rightarrow> string \<Rightarrow> bool \<Rightarrow> string list option"
  and FlattenTree_children :: "FileNode list \<Rightarrow> string \<Rightarrow> string list option" where
  "FlattenTree (FileNode name path isDir children) prefix isLast =
     (if prefix = [] then
        (case FlattenTree_children children (blank_indent @ blank_indent) of
           None \<Rightarrow> None
         | Some childLines \<Rightarrow> Some childLines)
      else
        (case chop4 prefix of
           None \<Rightarrow> None
         | Some stem \<Rightarrow>
             let line = stem @ (if isLast then branch_last else branch_mid)
                        @ (if isDir then ''[+] '' @ name @ ''/'' else ''[-] '' @ name);
                 newPrefix = (if isLast then stem @ blank_indent else stem @ bar_indent)
             in (case FlattenTree_children children (newPrefix @ blank_indent) of
                   None \<Rightarrow> None
                 | Some childLines \<Rightarrow> Some (line # childLines))))"
| "FlattenTree_children [] childPrefix = Some []"
| "FlattenTree_children (child # rest) childPrefix =
     (case FlattenTree child childPrefix (rest = []) of
        None \<Rightarrow> None
      | Some childLines \<Rightarrow>
          (case FlattenTree_children rest childPrefix of
             None \<Rightarrow> None
           | Some more \<Rightarrow> Some (childLines @ more)))"

text \<open>The nil check at the entry of \<open>FlattenTree\<close>.\<close>

definition FlattenTree_ptr :: "FileNode option \<Rightarrow> string \<Rightarrow> bool \<Rightarrow> string list option" where
  "FlattenTree_ptr node prefix isLast =
     (case node of None \<Rightarrow> Some [] | Some n \<Rightarrow> FlattenTree n prefix isLast)"

subsection \<open>CollectFiles\<close>

fun CollectFiles :: "FileNode \<Rightarrow> string list"
  and CollectFiles_children :: "FileNode list \<Rightarrow> string list" where
  "CollectFiles (FileNode name path isDir children) =
     (if \<not> isDir then [path] else []) @ CollectFiles_children children"
| "CollectFiles_children [] = []"
| "CollectFiles_children (child # rest) = CollectFiles child @ CollectFiles_children rest"

definition CollectFiles_ptr :: "FileNode option \<Rightarrow> string list" where
  "CollectFiles_ptr node = (case node of None \<Rightarrow> [] | Some n \<Rightarrow> CollectFiles n)"


subsection \<open>Document lines of the flattened tree\<close>

text \<open>
  The nodes that are documents (\<open>IsDir\<close> false), in depth-first order with the
  children in their stored order: the traversal the data model prescribes for the File
  Index.
\<close>

fun document_nodes :: "FileNode \<Rightarrow> FileNode list"
  and document_nodes_children :: "FileNode list \<Rightarrow> FileNode list" where
  "document_nodes (FileNode name path isDir children) =
     (if \<not> isDir then [FileNode name path isDir children] else [])
     @ document_nodes_children children"
| "document_nodes_children [] = []"
| "document_nodes_children (child # rest) = document_nodes child @ document_nodes_children rest"

lemma HasPrefix_length: "HasPrefix s p \<Longrightarrow> length p \<le> length s"
proof -
  assume "HasPrefix s p"
  then have "length (take (length p) s) = length p"
    unfolding HasPrefix_def by (rule arg_cong)
  then show ?thesis by simp
qed

lemma length_indents [simp]: "length blank_indent = 4" "length bar_indent = 6"
  by (simp_all add: blank_indent_def bar_indent_def)

lemma length_branch [simp]: "length branch_mid = 10" "length branch_last = 10"
  by (simp_all add: branch_mid_def branch_last_def)

lemma blank_indent_not_Nil [simp]: "blank_indent \<noteq> []"
  by (simp add: blank_indent_def)

text \<open>
  A display line is read back from the left: the indentation is a run of four-blank and
  bar-and-three-blank groups, then comes the branch glyph, then the marker \<open>[+]\<close> of a
  directory or \<open>[-]\<close> of a document, then the name. A line carries the document marker
  when the marker after its branch glyph is \<open>[-]\<close>.
\<close>

function strip_indent :: "string \<Rightarrow> string" where
  "strip_indent s =
     (if HasPrefix s blank_indent then strip_indent (drop 4 s)
      else if HasPrefix s bar_indent then strip_indent (drop 6 s)
      else s)"
  by pat_completeness auto
termination
proof (relation "measure length")
  fix s :: string
  assume "HasPrefix s blank_indent"
  from HasPrefix_length[OF this] show "(drop 4 s, s) \<in> measure length" by simp
next
  fix s :: string
  assume "HasPrefix s bar_indent"
  from HasPrefix_length[OF this] show "(drop 6 s, s) \<in> measure length" by simp
qed simp

declare strip_indent.simps [simp del]

definition is_document_line :: "string \<Rightarrow> bool" where
  "is_document_line l =
     (HasPrefix (strip_indent l) (branch_mid @ ''[-] '') \<or>
      HasPrefix (strip_indent l) (branch_last @ ''[-] ''))"

definition document_of_line :: "string \<Rightarrow> string" where
  "document_of_line l = drop 14 (strip_indent l)"

inductive indent :: "string \<Rightarrow> bool" where
  indent_Nil: "indent []"
| indent_blank: "indent p \<Longrightarrow> indent (p @ blank_indent)"
| indent_bar: "indent p \<Longrightarrow> indent (p @ bar_indent)"

definition example_tree :: FileNode where
  "example_tree =
     FileNode ''root'' ''/test'' True
       [FileNode ''dir1'' ''/test/dir1'' True
          [FileNode ''file1.md'' ''/test/dir1/file1.md'' False []],
        FileNode ''file2.md'' ''/test/file2.md'' False []]"

section \<open>The tree builder\<close>

subsection \<open>sortTree\<close>

text \<open>
  \<open>sort.Slice(node.Children, less)\<close> reorders the slice so that no element is less than
  an element before it; it is not stable. The model is an insertion sort driven by the
  same \<open>less\<close>; what is proved about it below uses only that the result is ordered by
  \<open>less\<close> and holds the same elements.
\<close>

fun insert_sorted :: "('a \<Rightarrow> 'a \<Rightarrow> bool) \<Rightarrow> 'a \<Rightarrow> 'a list \<Rightarrow> 'a list" where
  "insert_sorted lt x [] = [x]"
| "insert_sorted lt x (y # ys) =
     (if lt y x then y # insert_sorted lt x ys else x # y # ys)"

definition sort_Slice :: "('a \<Rightarrow> 'a \<Rightarrow> bool) \<Rightarrow> 'a list \<Rightarrow> 'a list" where
  "sort_Slice lt xs = foldr (insert_sorted lt) xs []"

text \<open>
  The closure passed to \<open>sort.Slice\<close>: directories first, then by lower-cased name.
  \<open>lower\<close> is \<open>strings.ToLower\<close>. Go compares strings byte by byte, which is the
  lexicographic order of \<open>string\<close>.
\<close>

definition less_child :: "(string \<Rightarrow> string) \<Rightarrow> FileNode \<Rightarrow> FileNode \<Rightarrow> bool" where
  "less_child lower a b =
     (if IsDir a \<noteq> IsDir b then IsDir a
      else lower (Name a) < lower (Name b))"

lemma set_insert_sorted [simp]: "set (insert_sorted lt x xs) = insert x (set xs)"
  by (induction xs) auto

lemma set_sort_Slice [simp]: "set (sort_Slice lt xs) = set xs"
  by (induction xs) (simp_all add: sort_Slice_def)

text \<open>\<open>sortTree\<close> sorts the children of a node, then the children of each child.\<close>

fun sortTree :: "(string \<Rightarrow> string) \<Rightarrow> FileNode \<Rightarrow> FileNode" where
  "sortTree lower (FileNode name path isDir children) =
     (if children = [] then FileNode name path isDir children
      else FileNode name path isDir
             (map (sortTree lower) (sort_Slice (less_child lower) children)))"

subsection \<open>Paths\<close>

text \<open>
  A path visited below the scan root is the root path joined with the names of the
  entries that lead to it; it is kept as that list of names, the root itself being the
  empty list (so \<open>path == rootPath\<close> is \<open>path = []\<close>). \<open>Rel\<close> is
  \<open>filepath.Rel(rootPath, path)\<close>: the names joined by the separator, and \<open>"."\<close> for
  the root. \<open>Join\<close> and \<open>Base\<close> are \<open>filepath.Join\<close> and \<open>filepath.Base\<close> on a clean
  path.
\<close>

definition separator :: char where
  "separator = CHR ''/''"

fun join_segments :: "string list \<Rightarrow> string" where
  "join_segments [] = []"
| "join_segments [s] = s"
| "join_segments (s # t # ss) = s @ separator # join_segments (t # ss)"

definition Rel :: "string list \<Rightarrow> string" where
  "Rel segs = (if segs = [] then ''.'' else join_segments segs)"

definition Join :: "string \<Rightarrow> string \<Rightarrow> string" where
  "Join dir rel = (if rel = [] then dir else dir @ separator # rel)"

definition Base :: "string \<Rightarrow> string" where
  "Base path =
     (if path = [] then ''.''
      else let stripped = rev (dropWhile (\<lambda>c. c = separator) (rev path));
               last_seg = rev (takeWhile (\<lambda>c. c \<noteq> separator) (rev stripped))
           in if last_seg = [] then [separator] else last_seg)"

subsection \<open>addToTree\<close>

text \<open>
  \<open>addToTree\<close> walks the parts of the relative path from the root. At each part it
  moves to the first child of that name, or appends a new child and moves to it. The Go
  code mutates the nodes through pointers; here the node on the way is rebuilt with the
  changed child in place. \<open>seen\<close> holds the parts before the current one, so
  \<open>parts[:i+1]\<close> is \<open>seen @ [part]\<close>, and \<open>i < len(parts)-1\<close> says that parts remain.
\<close>

fun replace_first :: "('a \<Rightarrow> bool) \<Rightarrow> ('a \<Rightarrow> 'a) \<Rightarrow> 'a list \<Rightarrow> 'a list" where
  "replace_first P f [] = []"
| "replace_first P f (x # xs) = (if P x then f x # xs else x # replace_first P f xs)"

fun addToTree_parts :: "string \<Rightarrow> bool \<Rightarrow> string list \<Rightarrow> string list \<Rightarrow> FileNode \<Rightarrow> FileNode" where
  "addToTree_parts basePath isDir seen [] current = current"
| "addToTree_parts basePath isDir seen (part # rest) current =
     (if list_ex (\<lambda>child. Name child = part) (Children current)
      then FileNode (Name current) (Path current) (IsDir current)
             (replace_first (\<lambda>child. Name child = part)
                (\<lambda>child. addToTree_parts basePath isDir (seen @ [part]) rest child)
                (Children current))
      else FileNode (Name current) (Path current) (IsDir current)
             (Children current @
                [addToTree_parts basePath isDir (seen @ [part]) rest
                   (FileNode part (Join basePath (join_segments (seen @ [part])))
                      (isDir \<or> rest \<noteq> []) [])]))"

definition addToTree :: "FileNode \<Rightarrow> string \<Rightarrow> string list \<Rightarrow> bool \<Rightarrow> FileNode" where
  "addToTree rootNode basePath fullPath isDir =
     addToTree_parts basePath isDir [] (Split (Rel fullPath) separator) rootNode"

subsection \<open>The file system\<close>

text \<open>
  What a scan reads, seen from its root: an entry is a file, a directory with the
  entries \<open>os.ReadDir\<close> lists (in its order), or a directory whose listing fails.
  The record \<open>filesystem\<close> is the environment of the program: \<open>root_entry\<close> is the
  entry at the root path itself, \<open>None\<close> when the path does not exist. \<open>gitignore\<close> is
  the matcher loaded from the root's ignore file, \<open>None\<close> when the file is missing or
  does not load. \<open>ReadFile\<close> is \<open>os.ReadFile\<close>: the content of a file, or the text of
  the error. \<open>ToLower\<close> is the library's \<open>strings.ToLower\<close>.
\<close>

datatype entry = File string | Dir string "entry list" | Unreadable string

fun entry_Name :: "entry \<Rightarrow> string" where
  "entry_Name (File n) = n"
| "entry_Name (Dir n es) = n"
| "entry_Name (Unreadable n) = n"

fun entry_IsDir :: "entry \<Rightarrow> bool" where
  "entry_IsDir (File n) = False"
| "entry_IsDir (Dir n es) = True"
| "entry_IsDir (Unreadable n) = True"

record filesystem =
  root_entry :: "entry option"
  gitignore :: "(string \<Rightarrow> bool) option"
  ReadFile :: "string \<Rightarrow> string + string"
  ToLower :: "string \<Rightarrow> string"

text \<open>
  The head of both scans: the matcher is loaded only when ignored files are not
  included, and stays nil otherwise.
\<close>

definition load_ignore :: "filesystem \<Rightarrow> bool \<Rightarrow> (string \<Rightarrow> bool) option" where
  "load_ignore fs includeIgnored = (if \<not> includeIgnored then gitignore fs else None)"

definition Ignore :: "(string \<Rightarrow> bool) option \<Rightarrow> string \<Rightarrow> bool" where
  "Ignore ignore p = (case ignore of None \<Rightarrow> False | Some m \<Rightarrow> m p)"

definition new_root :: "string \<Rightarrow> FileNode" where
  "new_root rootPath = FileNode (Base rootPath) rootPath True []"

definition ReadDir :: "filesystem \<Rightarrow> entry list option" where
  "ReadDir fs = (case root_entry fs of Some (Dir n es) \<Rightarrow> Some es | _ \<Rightarrow> None)"

subsection \<open>FindMarkdownFilesQuick\<close>

text \<open>The body of the loop over the entries of the root directory.\<close>

definition quick_entry ::
  "(string \<Rightarrow> string) \<Rightarrow> (string \<Rightarrow> bool) option \<Rightarrow> bool \<Rightarrow> string \<Rightarrow> entry
     \<Rightarrow> FileNode \<Rightarrow> FileNode" where
  "quick_entry lower ignore includeIgnored rootPath e rootNode =
     (let name = entry_Name e in
      if HasPrefix name ''.'' then rootNode
      else if \<not> includeIgnored \<and> ignore \<noteq> None \<and> Ignore ignore name then rootNode
      else if entry_IsDir e then addToTree rootNode rootPath [name] True
      else if HasSuffix (lower name) ''.md'' then addToTree rootNode rootPath [name] False
      else rootNode)"

definition FindMarkdownFilesQuick :: "filesystem \<Rightarrow> string \<Rightarrow> bool \<Rightarrow> FileNode option \<times> string option" where
  "FindMarkdownFilesQuick fs rootPath includeIgnored =
     (let ignore = load_ignore fs includeIgnored;
          rootNode = new_root rootPath
      in case ReadDir fs of
           None \<Rightarrow> (Some rootNode, None)
         | Some entries \<Rightarrow>
             (Some (sortTree (ToLower fs)
                      (fold (quick_entry (ToLower fs) ignore includeIgnored rootPath) entries
                         rootNode)), None))"

subsection \<open>FindMarkdownFilesWithDepth\<close>

text \<open>
  \<open>filepath.WalkDir\<close>. The callback returns nil, \<open>SkipDir\<close> or another error. A
  directory is visited before its entries; \<open>SkipDir\<close> from a directory skips its
  entries, from a file the rest of the containing directory; any other error stops the
  walk. A directory whose listing fails is reported to the callback a second time, with
  the error. A root that does not exist is reported once, with the error and no entry.
\<close>

datatype walk_result = WalkNil | SkipDir | WalkErr string

type_synonym visitor = "string list \<Rightarrow> entry option \<Rightarrow> bool \<Rightarrow> FileNode \<Rightarrow> FileNode \<times> walk_result"

fun walkDir :: "visitor \<Rightarrow> string list \<Rightarrow> entry \<Rightarrow> FileNode \<Rightarrow> FileNode \<times> walk_result"
  and walkDir_entries :: "visitor \<Rightarrow> string list \<Rightarrow> entry list \<Rightarrow> FileNode \<Rightarrow> FileNode \<times> walk_result" where
  "walkDir fn path (File n) rootNode = fn path (Some (File n)) False rootNode"
| "walkDir fn path (Dir n entries) rootNode =
     (case fn path (Some (Dir n entries)) False rootNode of
        (root1, r) \<Rightarrow>
          if r \<noteq> WalkNil then (root1, if r = SkipDir then WalkNil else r)
          else walkDir_entries fn path entries root1)"
| "walkDir fn path (Unreadable n) rootNode =
     (case fn path (Some (Unreadable n)) False rootNode of
        (root1, r) \<Rightarrow>
          if r \<noteq> WalkNil then (root1, if r = SkipDir then WalkNil else r)
          else (case fn path (Some (Unreadable n)) True root1 of
                  (root2, r2) \<Rightarrow> (root2, if r2 = SkipDir then WalkNil else r2)))"
| "walkDir_entries fn path [] rootNode = (rootNode, WalkNil)"
| "walkDir_entries fn path (d1 # rest) rootNode =
     (case walkDir fn (path @ [entry_Name d1]) d1 rootNode of
        (root1, r) \<Rightarrow>
          if r \<noteq> WalkNil then (root1, if r = SkipDir then WalkNil else r)
          else walkDir_entries fn path rest root1)"

definition WalkDir :: "filesystem \<Rightarrow> visitor \<Rightarrow> FileNode \<Rightarrow> FileNode \<times> string option" where
  "WalkDir fs fn rootNode =
     (case (case root_entry fs of
              None \<Rightarrow> fn [] None True rootNode
            | Some info \<Rightarrow> walkDir fn [] info rootNode) of
        (root1, r) \<Rightarrow> (root1, case r of WalkErr e \<Rightarrow> Some e | _ \<Rightarrow> None))"

text \<open>The callback of \<open>FindMarkdownFilesWithDepth\<close>.\<close>

definition visit ::
  "(string \<Rightarrow> string) \<Rightarrow> string \<Rightarrow> (string \<Rightarrow> bool) option \<Rightarrow> bool \<Rightarrow> int \<Rightarrow> visitor" where
  "visit lower rootPath ignore includeIgnored maxDepth path d err rootNode =
     (if err then (rootNode, WalkNil)
      else case d of
        None \<Rightarrow> (rootNode, WalkNil)
      | Some e \<Rightarrow>
          let relPath = Rel path;
              depth = (if relPath = ''.'' then 0
                       else int (length (Split relPath separator)) - 1)
          in
          if 0 \<le> maxDepth \<and> maxDepth < depth
          then (rootNode, if entry_IsDir e then SkipDir else WalkNil)
          else if entry_IsDir e \<and> HasPrefix (entry_Name e) ''.'' \<and> path \<noteq> []
          then (rootNode, SkipDir)
          else if \<not> includeIgnored \<and> ignore \<noteq> None \<and> relPath \<noteq> ''.'' \<and> Ignore ignore relPath
          then (rootNode, if entry_IsDir e then SkipDir else WalkNil)
          else if \<not> entry_IsDir e \<and> \<not> HasSuffix (lower (entry_Name e)) ''.md''
          then (rootNode, WalkNil)
          else if path = [] then (rootNode, WalkNil)
          else (addToTree rootNode rootPath path (entry_IsDir e), WalkNil))"

definition FindMarkdownFilesWithDepth :: "filesystem \<Rightarrow> string \<Rightarrow> bool \<Rightarrow> int \<Rightarrow> FileNode option \<times> string option" where
  "FindMarkdownFilesWithDepth fs rootPath includeIgnored maxDepth =
     (let ignore = load_ignore fs includeIgnored;
          rootNode = new_root rootPath
      in case WalkDir fs (visit (ToLower fs) rootPath ignore includeIgnored maxDepth) rootNode of
           (root1, Some e) \<Rightarrow> (None, Some e)
         | (root1, None) \<Rightarrow> (Some (sortTree (ToLower fs) root1), None))"

definition FindMarkdownFiles :: "filesystem \<Rightarrow> string \<Rightarrow> bool \<Rightarrow> FileNode option \<times> string option" where
  "FindMarkdownFiles fs rootPath includeIgnored = FindMarkdownFilesWithDepth fs rootPath includeIgnored (-1)"

subsection \<open>The sorting invariant\<close>

text \<open>
  The children of a node are sorted when the directories come first, followed by the
  other children, and the lower-cased names of each group are in non-decreasing order
  (\<open>lower\<close> is the lower-casing that makes the comparison case-insensitive,
  \<open>strings.ToLower\<close> for the program).
\<close>

definition children_sorted :: "(string \<Rightarrow> string) \<Rightarrow> FileNode list \<Rightarrow> bool" where
  "children_sorted lower cs =
     (cs = filter IsDir cs @ filter (\<lambda>c. \<not> IsDir c) cs
      \<and> sorted (map (\<lambda>c. lower (Name c)) (filter IsDir cs))
      \<and> sorted (map (\<lambda>c. lower (Name c)) (filter (\<lambda>c. \<not> IsDir c) cs)))"

fun tree_sorted :: "(string \<Rightarrow> string) \<Rightarrow> FileNode \<Rightarrow> bool" where
  "tree_sorted lower (FileNode name path isDir children) =
     (children_sorted lower children \<and> list_all (tree_sorted lower) children)"

subsection \<open>Example file systems\<close>

definition scenario_fs :: filesystem where
  "scenario_fs = \<lparr> root_entry = Some (Dir ''proj''
       [Dir ''.git'' [File ''HEAD''], File ''README.md'',
        Dir ''docs'' [File ''guide.md''], File ''notes.txt'']),
     gitignore = None, ReadFile = (\<lambda>p. Inl ''no such file''),
     ToLower = ascii_ToLower \<rparr>"

definition scenario_tree :: FileNode where
  "scenario_tree =
     FileNode ''proj'' ''/proj'' True
       [FileNode ''docs'' ''/proj/docs'' True
          [FileNode ''guide.md'' ''/proj/docs/guide.md'' False []],
        FileNode ''README.md'' ''/proj/README.md'' False []]"

text \<open>
  A directory with two documents whose names start with a capital and a small e with
  acute accent (bytes C3 89 and C3 A9), listed in byte order, and the tree that the
  program returns for it.
\<close>

definition accent_fs :: filesystem where
  "accent_fs = \<lparr> root_entry = Some (Dir ''proj''
       [File (CHR 0xC3 # CHR 0x89 # ''b.md''), File (CHR 0xC3 # CHR 0xA9 # ''a.md'')]),
     gitignore = None, ReadFile = (\<lambda>p. Inl ''no such file''),
     ToLower = latin1_ToLower \<rparr>"

definition accent_tree :: FileNode where
  "accent_tree =
     FileNode ''proj'' ''/proj'' True
       [FileNode (CHR 0xC3 # CHR 0xA9 # ''a.md'') (''/proj/'' @ CHR 0xC3 # CHR 0xA9 # ''a.md'')
          False [],
        FileNode (CHR 0xC3 # CHR 0x89 # ''b.md'') (''/proj/'' @ CHR 0xC3 # CHR 0x89 # ''b.md'')
          False []]"

definition hidden_fs :: filesystem where
  "hidden_fs = \<lparr> root_entry = Some (Dir ''proj'' [File ''.hidden.md'']),
     gitignore = None, ReadFile = (\<lambda>p. Inl ''no such file''),
     ToLower = ascii_ToLower \<rparr>"

definition missing_fs :: filesystem where
  "missing_fs = \<lparr> root_entry = None,
     gitignore = None, ReadFile = (\<lambda>p. Inl ''no such file''),
     ToLower = ascii_ToLower \<rparr>"

text \<open>The entries of the root cannot be read: it is missing, a file, or unreadable.\<close>

definition root_unreadable :: "filesystem \<Rightarrow> bool" where
  "root_unreadable fs = (ReadDir fs = None)"

section \<open>Numbers\<close>

text \<open>
  Go's \<open>int\<close> is a 64-bit integer. The integers of this program are lengths of slices,
  line offsets, terminal sizes and a scan depth that grows by one per scan; they stay
  far inside the 64-bit range, and are modelled as unbounded \<open>int\<close>. Integer division
  truncates towards zero.
\<close>

definition go_div :: "int \<Rightarrow> int \<Rightarrow> int" where
  "go_div a b = sgn a * sgn b * (\<bar>a\<bar> div \<bar>b\<bar>)"

definition go_rem :: "int \<Rightarrow> int \<Rightarrow> int" where
  "go_rem a b = a - b * go_div a b"

definition len :: "'a list \<Rightarrow> int" where
  "len xs = int (length xs)"

text \<open>
  The split ratio is a \<open>float64\<close>. It is modelled as an exact rational, and the
  conversion \<open>int(x)\<close> as truncation towards zero; rounding of the binary fractions is
  not modelled.
\<close>

definition float_to_int :: "rat \<Rightarrow> int" where
  "float_to_int x = (if 0 \<le> x then \<lfloor>x\<rfloor> else \<lceil>x\<rceil>)"

definition minFloat :: "rat \<Rightarrow> rat \<Rightarrow> rat" where
  "minFloat a b = (if a < b then a else b)"

definition maxFloat :: "rat \<Rightarrow> rat \<Rightarrow> rat" where
  "maxFloat a b = (if a > b then a else b)"

section \<open>The rendering engine\<close>

text \<open>
  The rendering library is outside the program. A renderer is known by the wrap width
  it was created with; \<open>NewTermRenderer\<close> and \<open>Render\<close> return an error text or a
  result. The renderer caches (\<open>rendererCache\<close>, \<open>dualRendererCache\<close>) map a width to
  the renderer created for it. The controller runs on one event loop, so the locks
  around the cache are not modelled.
\<close>

datatype Renderer = TermRenderer int

record glamour =
  NewTermRenderer :: "int \<Rightarrow> string + Renderer"
  Render :: "Renderer \<Rightarrow> string \<Rightarrow> string + string"

type_synonym renderer_cache = "int \<Rightarrow> Renderer option"

section \<open>Messages and commands\<close>

text \<open>
  The messages both models receive in \<open>Update\<close>, and the commands they return. A
  command is work the framework runs off the event loop; its result comes back as a
  message.
\<close>

datatype MouseType = MouseWheelUp | MouseWheelDown | MouseOther

datatype Msg =
    initialLoadMsg
  | loadCompleteMsg "FileNode option" "string option"
  | expandTreeMsg
  | performExpansionMsg
  | WindowSizeMsg int int
  | KeyMsg string
  | MouseMsg MouseType int
  | fileLoadedMsg string "string option"
  | renderContentMsg
  | rendererCreatedMsg "Renderer option" "string option"
  | contentRenderedMsg "string list" "string option"

datatype Cmd =
    NoCmd
  | Quit
  | QuickScanCmd
  | TickExpandTree
  | TickPerformExpansion
  | CreateRendererCmd int
  | RenderContentCmd string "Renderer option" bool

section \<open>The single-file model\<close>

record SingleFileModel =
  filepath :: string
  content :: string
  lines :: "string list"
  viewport :: int
  width :: int
  height :: int
  renderer :: "Renderer option"
  raw :: bool
  contentLoaded :: bool
  rendererCreated :: bool

text \<open>The message that the command of \<open>renderContentAsync\<close> delivers.\<close>

definition renderContentAsync :: "glamour \<Rightarrow> string \<Rightarrow> Renderer option \<Rightarrow> bool \<Rightarrow> Msg" where
  "renderContentAsync g content' renderer' raw' =
     (case renderer' of
        None \<Rightarrow> contentRenderedMsg (Split content' newline) None
      | Some r \<Rightarrow>
          if raw' \<or> content' = [] then contentRenderedMsg (Split content' newline) None
          else (case Render g r content' of
                  Inl err \<Rightarrow> contentRenderedMsg (Split content' newline) (Some err)
                | Inr rendered \<Rightarrow> contentRenderedMsg (Split rendered newline) None))"

text \<open>
  \<open>(*SingleFileModel).Update\<close>. A message of another kind leaves the model as it is.
\<close>

definition SingleFile_KeyMsg :: "SingleFileModel \<Rightarrow> string \<Rightarrow> SingleFileModel \<times> Cmd" where
  "SingleFile_KeyMsg m key =
     (if key = ''q'' \<or> key = ''ctrl+c'' \<or> key = ''esc'' then (m, Quit)
      else if key = ''j'' \<or> key = ''down'' then
        (if SingleFileModel.viewport m < len (SingleFileModel.lines m) - SingleFileModel.height m
         then (m\<lparr>SingleFileModel.viewport := SingleFileModel.viewport m + 1\<rparr>, NoCmd)
         else (m, NoCmd))
      else if key = ''k'' \<or> key = ''up'' then
        (if SingleFileModel.viewport m > 0
         then (m\<lparr>SingleFileModel.viewport := SingleFileModel.viewport m - 1\<rparr>, NoCmd)
         else (m, NoCmd))
      else if key = ''ctrl+d'' \<or> key = ''pgdown'' then
        (let v = SingleFileModel.viewport m + go_div (SingleFileModel.height m) 2 in
         if v > len (SingleFileModel.lines m) - SingleFileModel.height m
         then (m\<lparr>SingleFileModel.viewport :=
                    max 0 (len (SingleFileModel.lines m) - SingleFileModel.height m)\<rparr>, NoCmd)
         else (m\<lparr>SingleFileModel.viewport := v\<rparr>, NoCmd))
      else if key = ''ctrl+u'' \<or> key = ''pgup'' then
        (let v = SingleFileModel.viewport m - go_div (SingleFileModel.height m) 2 in
         if v < 0 then (m\<lparr>SingleFileModel.viewport := 0\<rparr>, NoCmd)
         else (m\<lparr>SingleFileModel.viewport := v\<rparr>, NoCmd))
      else if key = ''g'' \<or> key = ''home'' then (m\<lparr>SingleFileModel.viewport := 0\<rparr>, NoCmd)
      else if key = ''G'' \<or> key = ''end'' then
        (m\<lparr>SingleFileModel.viewport :=
              max 0 (len (SingleFileModel.lines m) - SingleFileModel.height m)\<rparr>, NoCmd)
      else if key = ''r'' then
        (let m1 = m\<lparr>SingleFileModel.raw := \<not> SingleFileModel.raw m\<rparr> in
         if SingleFileModel.content m1 \<noteq> [] \<and> SingleFileModel.renderer m1 \<noteq> None
         then (m1, RenderContentCmd (SingleFileModel.content m1) (SingleFileModel.renderer m1)
                     (SingleFileModel.raw m1))
         else (m1, NoCmd))
      else if key = '' '' then
        (let v = SingleFileModel.viewport m + (SingleFileModel.height m - 1) in
         if v > len (SingleFileModel.lines m) - SingleFileModel.height m
         then (m\<lparr>SingleFileModel.viewport :=
                    max 0 (len (SingleFileModel.lines m) - SingleFileModel.height m)\<rparr>, NoCmd)
         else (m\<lparr>SingleFileModel.viewport := v\<rparr>, NoCmd))
      else (m, NoCmd))"

fun SingleFile_Update :: "SingleFileModel \<Rightarrow> Msg \<Rightarrow> SingleFileModel \<times> Cmd" where
  "SingleFile_Update m (fileLoadedMsg text err) =
     (case err of
        Some e \<Rightarrow> (m\<lparr>SingleFileModel.lines := [''Error loading file: '' @ e]\<rparr>, NoCmd)
      | None \<Rightarrow>
          let m1 = m\<lparr>SingleFileModel.content := text, contentLoaded := True,
                      SingleFileModel.lines := Split text newline\<rparr>
          in if \<not> SingleFileModel.raw m1 \<and> SingleFileModel.renderer m1 = None then
               (m1, CreateRendererCmd
                      (if SingleFileModel.width m1 > 0 then SingleFileModel.width m1 else 80))
             else if \<not> SingleFileModel.raw m1 \<and> SingleFileModel.renderer m1 \<noteq> None then
               (m1, RenderContentCmd (SingleFileModel.content m1) (SingleFileModel.renderer m1)
                      (SingleFileModel.raw m1))
             else (m1, NoCmd))"
| "SingleFile_Update m (rendererCreatedMsg r err) =
     (if err \<noteq> None then (m, NoCmd)
      else let m1 = m\<lparr>SingleFileModel.renderer := r\<rparr>
           in if \<not> SingleFileModel.raw m1 \<and> SingleFileModel.content m1 \<noteq> [] then
                (m1, RenderContentCmd (SingleFileModel.content m1) (SingleFileModel.renderer m1)
                       (SingleFileModel.raw m1))
              else (m1, NoCmd))"
| "SingleFile_Update m (contentRenderedMsg ls err) =
     (if err = None then (m\<lparr>SingleFileModel.lines := ls\<rparr>, NoCmd)
      else (m\<lparr>SingleFileModel.lines := Split (SingleFileModel.content m) newline\<rparr>, NoCmd))"
| "SingleFile_Update m renderContentMsg =
     (if SingleFileModel.content m \<noteq> [] \<and> SingleFileModel.renderer m \<noteq> None
      then (m, RenderContentCmd (SingleFileModel.content m) (SingleFileModel.renderer m)
                 (SingleFileModel.raw m))
      else (m, NoCmd))"
| "SingleFile_Update m (WindowSizeMsg w h) =
     (let m1 = m\<lparr>SingleFileModel.width := w, SingleFileModel.height := h\<rparr>
      in if \<not> SingleFileModel.raw m1 \<and> SingleFileModel.width m1 > 0
            \<and> SingleFileModel.content m1 \<noteq> []
         then (m1\<lparr>SingleFileModel.renderer := None\<rparr>, CreateRendererCmd (SingleFileModel.width m1))
         else (m1, NoCmd))"
| "SingleFile_Update m (KeyMsg key) = SingleFile_KeyMsg m key"
| "SingleFile_Update m other = (m, NoCmd)"

text \<open>What the framework does with a \<open>RenderContentCmd\<close>: it delivers its message.\<close>

definition deliver_rendered :: "glamour \<Rightarrow> SingleFileModel \<Rightarrow> SingleFileModel" where
  "deliver_rendered g m =
     fst (SingleFile_Update m
            (renderContentAsync g (SingleFileModel.content m) (SingleFileModel.renderer m)
               (SingleFileModel.raw m)))"

section \<open>The dual-pane model\<close>

record DualPaneModel =
  fileTree :: "FileNode option"
  allFiles :: "string list"
  treeLines :: "string list"
  selectedIndex :: int
  treeViewport :: int
  contentViewport :: int
  currentContent :: string
  renderedLines :: "string list"
  width :: int
  height :: int
  splitRatio :: rat
  renderer :: "Renderer option"
  focusedPane :: int
  raw :: bool
  treeSelectedIdx :: int
  includeIgnored :: bool
  rootPath :: string
  isExpanding :: bool
  currentDepth :: int

text \<open>
  The methods of the model change the model and the renderer cache
  \<open>dualRendererCache\<close>, a global of the program; both are passed and returned.
\<close>

type_synonym dual_state = "DualPaneModel \<times> renderer_cache"

subsection \<open>Helpers\<close>

definition expandTree :: "DualPaneModel \<Rightarrow> Cmd" where
  "expandTree m = (if isExpanding m then NoCmd else TickPerformExpansion)"

text \<open>
  \<open>findTreeLineForFile\<close>: the index of the first line that contains \<open>[-]\<close> and the
  file name, or 0. \<open>strings.Split\<close> never returns an empty slice, so its last element
  exists.
\<close>

fun find_line :: "string \<Rightarrow> string list \<Rightarrow> int \<Rightarrow> int" where
  "find_line filename [] i = 0"
| "find_line filename (line # rest) i =
     (if Contains line ''[-]'' \<and> Contains line filename then i
      else find_line filename rest (i + 1))"

definition findTreeLineForFile :: "int \<Rightarrow> string list \<Rightarrow> string list \<Rightarrow> int" where
  "findTreeLineForFile fileIndex tLines files =
     (if fileIndex < 0 \<or> fileIndex \<ge> len files then 0
      else let targetFile = files ! nat fileIndex;
               parts = Split targetFile CHR ''/'';
               filename = last parts
           in find_line filename tLines 0)"

definition ensureRenderer :: "glamour \<Rightarrow> dual_state \<Rightarrow> dual_state" where
  "ensureRenderer g st =
     (case st of (m, cache) \<Rightarrow>
        if renderer m = None then
          (case cache 60 of
             Some cached \<Rightarrow> (m\<lparr>renderer := Some cached\<rparr>, cache)
           | None \<Rightarrow>
               (case NewTermRenderer g 60 of
                  Inr r \<Rightarrow> (m\<lparr>renderer := Some r\<rparr>, cache(60 \<mapsto> r))
                | Inl err \<Rightarrow> (m, cache)))
        else (m, cache))"

definition refreshContent :: "glamour \<Rightarrow> dual_state \<Rightarrow> dual_state" where
  "refreshContent g st =
     (case st of (m, cache) \<Rightarrow>
        if raw m then (m\<lparr>renderedLines := Split (currentContent m) newline\<rparr>, cache)
        else
          (case ensureRenderer g (m, cache) of (m1, cache1) \<Rightarrow>
             (case renderer m1 of
                Some r \<Rightarrow>
                  let rendered = (case Render g r (currentContent m1) of
                                    Inl err \<Rightarrow> currentContent m1
                                  | Inr out \<Rightarrow> out)
                  in (m1\<lparr>renderedLines := Split rendered newline\<rparr>, cache1)
              | None \<Rightarrow> (m1\<lparr>renderedLines := Split (currentContent m1) newline\<rparr>, cache1))))"

definition loadFile :: "filesystem \<Rightarrow> glamour \<Rightarrow> int \<Rightarrow> dual_state \<Rightarrow> dual_state" where
  "loadFile fs g index st =
     (case st of (m, cache) \<Rightarrow>
        if index < 0 \<or> index \<ge> len (allFiles m) then (m, cache)
        else
          (case ReadFile fs (allFiles m ! nat index) of
             Inl err \<Rightarrow>
               (m\<lparr>currentContent := ''Error loading file: '' @ err,
                   renderedLines := Split (''Error loading file: '' @ err) newline\<rparr>, cache)
           | Inr text \<Rightarrow>
               (case refreshContent g (m\<lparr>currentContent := text\<rparr>, cache) of
                  (m1, cache1) \<Rightarrow> (m1\<lparr>contentViewport := 0\<rparr>, cache1))))"

definition adjustTreeViewport :: "DualPaneModel \<Rightarrow> DualPaneModel" where
  "adjustTreeViewport m =
     (let availableHeight = height m - 2 in
      if treeSelectedIdx m < treeViewport m then m\<lparr>treeViewport := treeSelectedIdx m\<rparr>
      else if treeSelectedIdx m \<ge> treeViewport m + availableHeight
      then m\<lparr>treeViewport := treeSelectedIdx m - availableHeight + 1\<rparr>
      else m)"

definition wrappingWidth :: "DualPaneModel \<Rightarrow> int" where
  "wrappingWidth m =
     (let contentWidth = float_to_int (of_int (width m) * (1 - splitRatio m))
      in if contentWidth - 6 < 40 then 40 else contentWidth - 6)"

definition updateRendererWidth :: "glamour \<Rightarrow> dual_state \<Rightarrow> dual_state" where
  "updateRendererWidth g st =
     (case st of (m, cache) \<Rightarrow>
        (case cache (wrappingWidth m) of
           Some cached \<Rightarrow> (m\<lparr>renderer := Some cached\<rparr>, cache)
         | None \<Rightarrow>
             (case NewTermRenderer g (wrappingWidth m) of
                Inl err \<Rightarrow> (m, cache)
              | Inr r \<Rightarrow>
                  refreshContent g (m\<lparr>renderer := Some r\<rparr>, cache(wrappingWidth m \<mapsto> r)))))"

text \<open>The command started by \<open>initialLoadMsg\<close> delivers this message.\<close>

definition quick_scan_result :: "filesystem \<Rightarrow> DualPaneModel \<Rightarrow> Msg" where
  "quick_scan_result fs m =
     (case FindMarkdownFilesQuick fs (rootPath m) (includeIgnored m) of
        (t, Some err) \<Rightarrow> loadCompleteMsg None (Some err)
      | (t, None) \<Rightarrow> loadCompleteMsg t None)"

subsection \<open>Key and mouse events\<close>

definition select_file :: "filesystem \<Rightarrow> glamour \<Rightarrow> int \<Rightarrow> dual_state \<Rightarrow> dual_state" where
  "select_file fs g index st =
     (case st of (m, cache) \<Rightarrow>
        let m1 = m\<lparr>selectedIndex := index\<rparr>;
            m2 = m1\<lparr>treeSelectedIdx := findTreeLineForFile index (treeLines m1) (allFiles m1)\<rparr>
        in case loadFile fs g index (m2, cache) of
             (m3, cache3) \<Rightarrow> (adjustTreeViewport m3, cache3))"

definition Update_KeyMsg :: "filesystem \<Rightarrow> glamour \<Rightarrow> dual_state \<Rightarrow> string \<Rightarrow> dual_state \<times> Cmd" where
  "Update_KeyMsg fs g st key =
     (case st of (m, cache) \<Rightarrow>
        if key = ''q'' \<or> key = ''ctrl+c'' then ((m, cache), Quit)
        else if key = ''tab'' then ((m\<lparr>focusedPane := go_rem (focusedPane m + 1) 2\<rparr>, cache), NoCmd)
        else if key = ''h'' \<or> key = ''left'' then
          ((if focusedPane m = 1 then m\<lparr>focusedPane := 0\<rparr> else m, cache), NoCmd)
        else if key = ''l'' \<or> key = ''right'' then
          ((if focusedPane m = 0 then m\<lparr>focusedPane := 1\<rparr> else m, cache), NoCmd)
        else if key = ''j'' \<or> key = ''down'' then
          (if focusedPane m = 0 then
             (if selectedIndex m < len (allFiles m) - 1
              then (select_file fs g (selectedIndex m + 1) (m, cache), NoCmd)
              else ((m, cache), NoCmd))
           else
             (let availableHeight = height m - 2 in
              if contentViewport m < len (renderedLines m) - availableHeight
              then ((m\<lparr>contentViewport := contentViewport m + 1\<rparr>, cache), NoCmd)
              else ((m, cache), NoCmd)))
        else if key = ''k'' \<or> key = ''up'' then
          (if focusedPane m = 0 then
             (if selectedIndex m > 0
              then (select_file fs g (selectedIndex m - 1) (m, cache), NoCmd)
              else ((m, cache), NoCmd))
           else
             (if contentViewport m > 0
              then ((m\<lparr>contentViewport := contentViewport m - 1\<rparr>, cache), NoCmd)
              else ((m, cache), NoCmd)))
        else if key = ''enter'' then
          (if focusedPane m = 0 \<and> selectedIndex m \<ge> 0 \<and> selectedIndex m < len (allFiles m)
           then ((m\<lparr>focusedPane := 1, contentViewport := 0\<rparr>, cache), NoCmd)
           else ((m, cache), NoCmd))
        else if key = ''ctrl+d'' \<or> key = ''pgdown'' then
          (if focusedPane m = 1 then
             (let availableHeight = height m - 2;
                  v = contentViewport m + go_div availableHeight 2
              in if v > len (renderedLines m) - availableHeight
                 then ((m\<lparr>contentViewport := max 0 (len (renderedLines m) - availableHeight)\<rparr>,
                        cache), NoCmd)
                 else ((m\<lparr>contentViewport := v\<rparr>, cache), NoCmd))
           else ((m, cache), NoCmd))
        else if key = ''ctrl+u'' \<or> key = ''pgup'' then
          (if focusedPane m = 1 then
             (let availableHeight = height m - 2;
                  v = contentViewport m - go_div availableHeight 2
              in if v < 0 then ((m\<lparr>contentViewport := 0\<rparr>, cache), NoCmd)
                 else ((m\<lparr>contentViewport := v\<rparr>, cache), NoCmd))
           else ((m, cache), NoCmd))
        else if key = ''g'' \<or> key = ''home'' then
          (if focusedPane m = 1 then ((m\<lparr>contentViewport := 0\<rparr>, cache), NoCmd)
           else
             (let m1 = m\<lparr>selectedIndex := 0\<rparr>;
                  m2 = m1\<lparr>treeSelectedIdx := findTreeLineForFile 0 (treeLines m1) (allFiles m1)\<rparr>;
                  m3 = m2\<lparr>treeViewport := 0\<rparr>
              in if len (allFiles m3) > 0 then (loadFile fs g 0 (m3, cache), NoCmd)
                 else ((m3, cache), NoCmd)))
        else if key = ''G'' \<or> key = ''end'' then
          (if focusedPane m = 1 then
             (let availableHeight = height m - 2 in
              ((m\<lparr>contentViewport := max 0 (len (renderedLines m) - availableHeight)\<rparr>, cache),
               NoCmd))
           else (select_file fs g (len (allFiles m) - 1) (m, cache), NoCmd))
        else if key = ''r'' then (refreshContent g (m\<lparr>raw := \<not> raw m\<rparr>, cache), NoCmd)
        else if key = ''<'' \<or> key = ''{'' then
          (updateRendererWidth g (m\<lparr>splitRatio := maxFloat (2 / 10) (splitRatio m - 5 / 100)\<rparr>,
             cache), NoCmd)
        else if key = ''>'' \<or> key = ''}'' then
          (updateRendererWidth g (m\<lparr>splitRatio := minFloat (5 / 10) (splitRatio m + 5 / 100)\<rparr>,
             cache), NoCmd)
        else if key = ''e'' then
          (if \<not> isExpanding m then ((m, cache), expandTree m) else ((m, cache), NoCmd))
        else ((m, cache), NoCmd))"

definition Update_MouseMsg :: "DualPaneModel \<Rightarrow> MouseType \<Rightarrow> int \<Rightarrow> DualPaneModel" where
  "Update_MouseMsg m ty x =
     (if ty = MouseWheelUp \<or> ty = MouseWheelDown then
        (let treeWidth = float_to_int (of_int (width m) * splitRatio m) in
         if x < treeWidth then
           (if ty = MouseWheelUp \<and> treeViewport m > 0
            then m\<lparr>treeViewport := treeViewport m - 1\<rparr>
            else if ty = MouseWheelDown \<and> treeViewport m < len (treeLines m) - (height m - 2)
            then m\<lparr>treeViewport := treeViewport m + 1\<rparr>
            else m)
         else
           (let availableHeight = height m - 2 in
            if ty = MouseWheelUp \<and> contentViewport m > 0
            then m\<lparr>contentViewport := contentViewport m - 1\<rparr>
            else if ty = MouseWheelDown
                    \<and> contentViewport m < len (renderedLines m) - availableHeight
            then m\<lparr>contentViewport := contentViewport m + 1\<rparr>
            else m))
      else m)"

subsection \<open>Update\<close>

text \<open>
  \<open>(*DualPaneModel).Update\<close>. \<open>None\<close> is a run-time panic (of \<open>FlattenTree\<close>); a
  message of another kind leaves the model as it is.
\<close>

definition Update_loadComplete ::
  "filesystem \<Rightarrow> glamour \<Rightarrow> dual_state \<Rightarrow> FileNode option \<Rightarrow> string option
     \<Rightarrow> (dual_state \<times> Cmd) option" where
  "Update_loadComplete fs g st tree err =
     (case st of (m, cache) \<Rightarrow>
        (case err of
           Some e \<Rightarrow>
             Some ((m\<lparr>treeLines := [''Error loading files: '' @ e], isExpanding := False\<rparr>,
                    cache), NoCmd)
         | None \<Rightarrow>
             (case FlattenTree_ptr tree [] False of
                None \<Rightarrow> None
              | Some flat \<Rightarrow>
                  let m1 = m\<lparr>fileTree := tree, allFiles := CollectFiles_ptr tree,
                             treeLines := flat, isExpanding := False\<rparr>
                  in if len (allFiles m1) > 0 then
                       (let m2 = m1\<lparr>selectedIndex := 0\<rparr>;
                            m3 = m2\<lparr>treeSelectedIdx :=
                                      findTreeLineForFile 0 (treeLines m2) (allFiles m2)\<rparr>
                        in Some (loadFile fs g 0 (m3, cache), TickExpandTree))
                     else Some ((m1, cache), TickExpandTree))))"

definition Update_performExpansion ::
  "filesystem \<Rightarrow> dual_state \<Rightarrow> (dual_state \<times> Cmd) option" where
  "Update_performExpansion fs st =
     (case st of (m, cache) \<Rightarrow>
        if \<not> isExpanding m then
          (let m1 = m\<lparr>isExpanding := True, currentDepth := currentDepth m + 1\<rparr> in
           case FindMarkdownFilesWithDepth fs (rootPath m1) (includeIgnored m1) (currentDepth m1) of
             (newTree, err) \<Rightarrow>
               (case (if err = None \<and> length (CollectFiles_ptr newTree) > length (allFiles m1)
                      then (case FlattenTree_ptr newTree [] False of
                              None \<Rightarrow> None
                            | Some flat \<Rightarrow>
                                let m2 = m1\<lparr>fileTree := newTree,
                                           allFiles := CollectFiles_ptr newTree,
                                           treeLines := flat\<rparr>
                                in if selectedIndex m2 < len (allFiles m2)
                                   then Some (m2\<lparr>treeSelectedIdx :=
                                                findTreeLineForFile (selectedIndex m2)
                                                  (treeLines m2) (allFiles m2)\<rparr>)
                                   else Some m2)
                      else Some m1) of
                  None \<Rightarrow> None
                | Some m3 \<Rightarrow>
                    let m4 = m3\<lparr>isExpanding := False\<rparr>
                    in if currentDepth m4 < 5 then Some ((m4, cache), expandTree m4)
                       else Some ((m4, cache), NoCmd)))
        else Some ((m, cache), NoCmd))"

fun Update :: "filesystem \<Rightarrow> glamour \<Rightarrow> dual_state \<Rightarrow> Msg \<Rightarrow> (dual_state \<times> Cmd) option" where
  "Update fs g (m, cache) initialLoadMsg =
     (if currentDepth m = -1
      then Some ((m\<lparr>currentDepth := 0, isExpanding := True\<rparr>, cache), QuickScanCmd)
      else Some ((m, cache), NoCmd))"
| "Update fs g (m, cache) (loadCompleteMsg tree err) = Update_loadComplete fs g (m, cache) tree err"
| "Update fs g (m, cache) expandTreeMsg = Some ((m, cache), expandTree m)"
| "Update fs g (m, cache) performExpansionMsg = Update_performExpansion fs (m, cache)"
| "Update fs g (m, cache) (WindowSizeMsg w h) =
     Some (updateRendererWidth g (m\<lparr>width := w, height := h - 2\<rparr>, cache), NoCmd)"
| "Update fs g (m, cache) (KeyMsg key) = Some (Update_KeyMsg fs g (m, cache) key)"
| "Update fs g (m, cache) (MouseMsg ty x) = Some ((Update_MouseMsg m ty x, cache), NoCmd)"
| "Update fs g (m, cache) other = Some ((m, cache), NoCmd)"

text \<open>
  \<open>NewDualPaneModel\<close>, for a working directory \<open>cwd\<close> (its failure to find one is
  outside the model).
\<close>

definition NewDualPaneModel :: "string \<Rightarrow> bool \<Rightarrow> DualPaneModel" where
  "NewDualPaneModel cwd incl =
     \<lparr> fileTree = Some (FileNode ''Loading...'' cwd True []),
       allFiles = [],
       treeLines = [''Loading markdown files...''],
       selectedIndex = 0,
       treeViewport = 0,
       contentViewport = 0,
       currentContent = [],
       renderedLines = [],
       width = 0,
       height = 0,
       splitRatio = 3 / 10,
       renderer = None,
       focusedPane = 0,
       raw = False,
       treeSelectedIdx = 0,
       includeIgnored = incl,
       rootPath = cwd,
       isExpanding = False,
       currentDepth = -1 \<rparr>"

subsection \<open>The viewport bound\<close>

text \<open>
  The content viewport is in range when it lies between 0 and the number of rendered
  lines minus the visible height (the pane height less its two border rows), or 0 when
  that is negative.
\<close>

definition viewport_ok :: "DualPaneModel \<Rightarrow> bool" where
  "viewport_ok m =
     (0 \<le> contentViewport m
      \<and> contentViewport m \<le> max 0 (len (renderedLines m) - (height m - 2)))"

section \<open>The event loop and example states\<close>

text \<open>
  The framework delivers the messages one at a time, in order; \<open>run\<close> feeds a list of
  messages to \<open>Update\<close> and drops the commands.
\<close>

fun run :: "filesystem \<Rightarrow> glamour \<Rightarrow> dual_state \<Rightarrow> Msg list \<Rightarrow> dual_state option" where
  "run fs g st [] = Some st"
| "run fs g st (msg # msgs) =
     (case Update fs g st msg of
        None \<Rightarrow> None
      | Some (st1, cmd) \<Rightarrow> run fs g st1 msgs)"

text \<open>
  A rendering engine for the examples: every width gets a renderer, and the output is a
  blank line, a line that tells whether the wrap width is below 66, the text, and a
  final line break.
\<close>

definition example_glamour :: glamour where
  "example_glamour =
     \<lparr> NewTermRenderer = (\<lambda>w. Inr (TermRenderer w)),
       Render = (\<lambda>r text. case r of TermRenderer w \<Rightarrow>
                   Inr (newline # (if w < 66 then ''narrow'' else ''wide'')
                          @ newline # text @ [newline])) \<rparr>"

definition scenario_D :: string where
  "scenario_D = ''# H'' @ [newline, newline] @ ''body''"

text \<open>A model that shows \<open>scenario_D\<close> rendered, in a pane of two visible rows.\<close>

definition rendered_model :: DualPaneModel where
  "rendered_model =
     (NewDualPaneModel ''/proj'' False)
       \<lparr> currentContent := scenario_D,
         renderedLines := [[], ''narrow'', ''# H'', [], ''body'', []],
         renderer := Some (TermRenderer 64),
         height := 4,
         focusedPane := 1 \<rparr>"

definition one_renderer :: renderer_cache where
  "one_renderer = Map.empty(64 \<mapsto> TermRenderer 64)"

text \<open>
  Two listed documents of which the first cannot be read; the second is selected and
  its content is scrolled down by five lines.
\<close>

definition unreadable_fs :: filesystem where
  "unreadable_fs =
     \<lparr> root_entry = Some (Dir ''proj'' [File ''a.md'', File ''b.md'']),
       gitignore = None,
       ReadFile = (\<lambda>p. if p = ''/proj/b.md'' then Inr scenario_D
                        else Inl (''open '' @ p @ '': permission denied'')),
       ToLower = ascii_ToLower \<rparr>"

definition scrolled_model :: DualPaneModel where
  "scrolled_model =
     (NewDualPaneModel ''/proj'' False)
       \<lparr> fileTree := Some (FileNode ''proj'' ''/proj'' True
                           [FileNode ''a.md'' ''/proj/a.md'' False [],
                            FileNode ''b.md'' ''/proj/b.md'' False []]),
         allFiles := [''/proj/a.md'', ''/proj/b.md''],
         treeLines := [blank_indent @ branch_mid @ ''[-] a.md'',
                       blank_indent @ branch_last @ ''[-] b.md''],
         selectedIndex := 1,
         treeSelectedIdx := 1,
         contentViewport := 5,
         currentContent := scenario_D,
         renderedLines := [[], ''narrow'', ''# H'', [], ''body'', []],
         renderer := Some (TermRenderer 64),
         height := 3,
         currentDepth := 5 \<rparr>"

text \<open>A model with a document loaded, before the first window size arrives.\<close>

definition loaded_model :: DualPaneModel where
  "loaded_model =
     (NewDualPaneModel ''/proj'' False)
       \<lparr> currentContent := ''doc'', renderedLines := [''doc''], currentDepth := 5 \<rparr>"

text \<open>The model after the scan of \<open>scenario_fs\<close> to depth 1.\<close>

definition deepened_model :: DualPaneModel where
  "deepened_model =
     (NewDualPaneModel ''/proj'' False)
       \<lparr> fileTree := Some scenario_tree,
         allFiles := [''/proj/docs/guide.md'', ''/proj/README.md''],
         treeLines := [blank_indent @ branch_mid @ ''[+] docs/'',
                       blank_indent @ bar_indent @ branch_last @ ''[-] guide.md'',
                       blank_indent @ branch_last @ ''[-] README.md''],
         selectedIndex := 1,
         treeSelectedIdx := 2,
         currentDepth := 1 \<rparr>"

definition raw_single :: SingleFileModel where
  "raw_single =
     \<lparr> filepath = ''stdin'', content = scenario_D, lines = [''Loading...''], viewport = 0,
       width = 80, height = 24, renderer = Some (TermRenderer 80), raw = True,
       contentLoaded = True, rendererCreated = False \<rparr>"

section \<open>Properties of the flattener and the file index\<close>

lemma strip_blank: "strip_indent (blank_indent @ s) = strip_indent s"
  by (subst strip_indent.simps) (simp add: HasPrefix_def blank_indent_def)

lemma strip_bar: "strip_indent (bar_indent @ s) = strip_indent s"
  by (subst strip_indent.simps) (simp add: HasPrefix_def blank_indent_def bar_indent_def)

lemma strip_mid: "strip_indent (branch_mid @ s) = branch_mid @ s"
  by (subst strip_indent.simps)
     (simp add: HasPrefix_def blank_indent_def bar_indent_def branch_mid_def)

lemma strip_last: "strip_indent (branch_last @ s) = branch_last @ s"
  by (subst strip_indent.simps)
     (simp add: HasPrefix_def blank_indent_def bar_indent_def branch_last_def)

lemma strip_indent_app: "indent p \<Longrightarrow> strip_indent (p @ s) = strip_indent s"
  by (induction p arbitrary: s rule: indent.induct) (simp_all add: strip_blank strip_bar)

lemma line_doc:
  "indent p \<Longrightarrow>
     is_document_line (p @ (if l then branch_last else branch_mid) @ ''[-] '' @ n)"
  by (simp add: is_document_line_def strip_indent_app strip_mid strip_last HasPrefix_def)

lemma line_doc_name:
  "indent p \<Longrightarrow>
     document_of_line (p @ (if l then branch_last else branch_mid) @ ''[-] '' @ n) = n"
  by (simp add: document_of_line_def strip_indent_app strip_mid strip_last)

lemma line_dir:
  "indent p \<Longrightarrow>
     \<not> is_document_line (p @ (if l then branch_last else branch_mid) @ ''[+] '' @ n)"
proof -
  assume p: "indent p"
  have "\<not> HasPrefix (branch_mid @ ''[+] '' @ n) (branch_mid @ ''[-] '')"
       "\<not> HasPrefix (branch_mid @ ''[+] '' @ n) (branch_last @ ''[-] '')"
       "\<not> HasPrefix (branch_last @ ''[+] '' @ n) (branch_mid @ ''[-] '')"
       "\<not> HasPrefix (branch_last @ ''[+] '' @ n) (branch_last @ ''[-] '')"
    by (simp_all add: HasPrefix_def branch_mid_def branch_last_def)
  then show ?thesis
    using p by (simp add: is_document_line_def strip_indent_app strip_mid strip_last)
qed

lemma chop4_app: "chop4 (p @ blank_indent) = Some p"
  by (simp add: chop4_def)

text \<open>
  Below the root every prefix is an indentation followed by four blanks, and the lines
  of the document nodes are exactly the lines that carry the document marker.
\<close>

lemma flatten_lines:
  "indent p \<Longrightarrow> \<exists>ls. FlattenTree t (p @ blank_indent) l = Some ls
      \<and> map document_of_line (filter is_document_line ls) = map Name (document_nodes t)"
  "indent p \<Longrightarrow> \<exists>ls. FlattenTree_children cs (p @ blank_indent) = Some ls
      \<and> map document_of_line (filter is_document_line ls)
          = map Name (document_nodes_children cs)"
proof (induction t and cs arbitrary: p l and p
       rule: document_nodes_document_nodes_children.induct)
  case (1 name path isDir children)
  let ?np = "if l then p @ blank_indent else p @ bar_indent"
  have "indent ?np" using "1.prems" by (simp add: indent.intros)
  from "1.IH"[OF this] obtain ls where
    ls: "FlattenTree_children children (?np @ blank_indent) = Some ls"
        "map document_of_line (filter is_document_line ls)
           = map Name (document_nodes_children children)"
    by blast
  show ?case
    using ls "1.prems"
    by (cases isDir; cases l)
       (simp_all add: chop4_app Let_def
          line_doc[where l=True, simplified] line_doc[where l=False, simplified]
          line_doc_name[where l=True, simplified] line_doc_name[where l=False, simplified]
          line_dir[where l=True, simplified] line_dir[where l=False, simplified])
next
  case 2
  then show ?case by simp
next
  case (3 child rest)
  from "3.IH"(1)[OF "3.prems"] obtain l1 where
    l1: "FlattenTree child (p @ blank_indent) (rest = []) = Some l1"
        "map document_of_line (filter is_document_line l1) = map Name (document_nodes child)"
    by blast
  from "3.IH"(2)[OF "3.prems"] obtain l2 where
    l2: "FlattenTree_children rest (p @ blank_indent) = Some l2"
        "map document_of_line (filter is_document_line l2)
           = map Name (document_nodes_children rest)"
    by blast
  show ?case using l1 l2 by simp
qed

lemma collect_paths:
  "CollectFiles t = map Path (document_nodes t)"
  "CollectFiles_children cs = map Path (document_nodes_children cs)"
  by (induction t and cs rule: document_nodes_document_nodes_children.induct) simp_all

lemma flatten_root:
  "\<exists>ls. FlattenTree (FileNode name path isDir children) [] l = Some ls
      \<and> map document_of_line (filter is_document_line ls)
          = map Name (document_nodes_children children)"
proof -
  have "indent blank_indent"
    using indent_blank[OF indent_Nil] by simp
  from flatten_lines(2)[OF this, of children] show ?thesis
    by auto
qed

text \<open>A prefix of one to three bytes does make the slice panic.\<close>

lemma FlattenTree_short_prefix_panics:
  "FlattenTree (FileNode ''a.md'' ''/a.md'' False []) ''ab'' False = None"
  by (simp add: chop4_def)

text \<open>
  Claim C10. Called as \<open>FlattenTree(tree, "", false)\<close>, on a nil pointer or on any tree,
  the function returns a list of lines: no call reached from there slices a prefix
  shorter than four bytes, since every prefix handed to a child ends in four blanks.
\<close>

theorem C10_FlattenTree_entry_total:
  "\<exists>lines. FlattenTree_ptr tree [] False = Some lines"
proof (cases tree)
  case None
  then show ?thesis by (simp add: FlattenTree_ptr_def)
next
  case (Some n)
  obtain name path isDir children where n: "n = FileNode name path isDir children"
    by (cases n)
  from flatten_root[of name path isDir children False] Some n show ?thesis
    by (auto simp: FlattenTree_ptr_def)
qed

text \<open>
  Claim C6. For a tree whose root is a directory (the data model's root invariant, and
  what every scan returns, see \<open>scan_root_is_directory\<close> below), the File Index and
  the document-marked display lines list
  the same document nodes in the same order: \<open>CollectFiles\<close> gives their paths, the
  lines that carry the document marker give their names, and so both have the same
  length.
\<close>

theorem C6_file_index_matches_document_lines:
  assumes "IsDir t"
  shows "\<exists>lines. FlattenTree t [] False = Some lines
           \<and> length (CollectFiles t) = length (filter is_document_line lines)
           \<and> CollectFiles t = map Path (document_nodes t)
           \<and> map document_of_line (filter is_document_line lines)
               = map Name (document_nodes t)"
proof -
  obtain name path isDir children where t: "t = FileNode name path isDir children"
    by (cases t)
  from flatten_root[of name path isDir children False] obtain ls where
    ls: "FlattenTree t [] False = Some ls"
        "map document_of_line (filter is_document_line ls)
           = map Name (document_nodes_children children)"
    using t by blast
  have docs: "document_nodes t = document_nodes_children children"
    using assms t by simp
  have "length (CollectFiles t) = length (map Name (document_nodes t))"
    by (simp add: collect_paths)
  also have "\<dots> = length (map document_of_line (filter is_document_line ls))"
    using ls(2) docs by simp
  finally have "length (CollectFiles t) = length (filter is_document_line ls)"
    by simp
  with ls docs show ?thesis
    by (simp add: collect_paths)
qed

theorem C6_file_index_matches_document_lines_witness:
  "IsDir example_tree
   \<and> (\<exists>lines. FlattenTree example_tree [] False = Some lines
        \<and> length (CollectFiles example_tree) = length (filter is_document_line lines)
        \<and> CollectFiles example_tree = map Path (document_nodes example_tree)
        \<and> map document_of_line (filter is_document_line lines)
            = map Name (document_nodes example_tree))"
proof -
  have d: "IsDir example_tree"
    by (simp add: example_tree_def)
  from C6_file_index_matches_document_lines[OF d] d show ?thesis
    by blast
qed

section \<open>Properties of the tree builder\<close>

subsection \<open>Sorting\<close>
lemma not_less_child_total: "\<not> less_child lower b a \<or> \<not> less_child lower a b"
  by (auto simp: less_child_def)

lemma not_less_child_trans:
  "\<not> less_child lower b a \<Longrightarrow> \<not> less_child lower c b \<Longrightarrow> \<not> less_child lower c a"
  by (auto simp: less_child_def split: if_splits)

lemma sorted_insert_sorted:
  "sorted_wrt (\<lambda>a b. \<not> less_child lower b a) xs \<Longrightarrow>
   sorted_wrt (\<lambda>a b. \<not> less_child lower b a) (insert_sorted (less_child lower) x xs)"
proof (induction xs)
  case Nil
  then show ?case by simp
next
  case (Cons y ys)
  show ?case
  proof (cases "less_child lower y x")
    case True
    then have "\<not> less_child lower x y" using not_less_child_total by blast
    with True Cons show ?thesis by auto
  next
    case False
    have "\<forall>z\<in>set ys. \<not> less_child lower z x"
      using Cons.prems False not_less_child_trans by auto
    with False Cons.prems show ?thesis by simp
  qed
qed

lemma sorted_sort_Slice:
  "sorted_wrt (\<lambda>a b. \<not> less_child lower b a) (sort_Slice (less_child lower) xs)"
  by (induction xs) (simp_all add: sort_Slice_def sorted_insert_sorted)

lemma children_sorted_if:
  "sorted_wrt (\<lambda>a b. \<not> less_child lower b a) cs \<Longrightarrow> children_sorted lower cs"
proof (induction cs)
  case Nil
  then show ?case by (simp add: children_sorted_def)
next
  case (Cons c cs)
  then have ih: "children_sorted lower cs" and c: "\<forall>y\<in>set cs. \<not> less_child lower y c"
    by simp_all
  show ?case
  proof (cases "IsDir c")
    case True
    have "\<forall>y\<in>set (filter IsDir cs). lower (Name c) \<le> lower (Name y)"
      using c True by (auto simp: less_child_def split: if_splits)
    with ih True show ?thesis
      by (auto simp: children_sorted_def)
  next
    case False
    have nd: "\<forall>y\<in>set cs. \<not> IsDir y"
      using c False by (auto simp: less_child_def split: if_splits)
    then have f: "filter IsDir cs = []" "filter (\<lambda>c. \<not> IsDir c) cs = cs"
      by (simp_all add: filter_empty_conv filter_id_conv)
    have "\<forall>y\<in>set cs. lower (Name c) \<le> lower (Name y)"
      using c False nd by (auto simp: less_child_def split: if_splits)
    with ih False f show ?thesis
      by (simp add: children_sorted_def)
  qed
qed

lemma sortTree_sel [simp]: "IsDir (sortTree lower t) = IsDir t" "Name (sortTree lower t) = Name t"
  by (cases t; simp)+

lemma less_child_sortTree [simp]: "less_child lower (sortTree lower a) (sortTree lower b) = less_child lower a b"
  by (simp add: less_child_def)

lemma children_sorted_sortTree_children:
  "children_sorted lower (map (sortTree lower) (sort_Slice (less_child lower) cs))"
  by (rule children_sorted_if) (simp add: sorted_wrt_map sorted_sort_Slice)

lemma tree_sorted_sortTree: "tree_sorted lower (sortTree lower t)"
proof (induction lower t rule: sortTree.induct)
  case (1 lower name path isDir children)
  show ?case
  proof (cases "children = []")
    case True
    then show ?thesis by (simp add: children_sorted_def)
  next
    case False
    with 1 show ?thesis
      by (simp add: children_sorted_sortTree_children list_all_iff)
  qed
qed

subsection \<open>The walk never fails\<close>

lemma visit_no_error: "snd (visit lower dir ignore incl maxDepth path d err rootNode) \<noteq> WalkErr e"
  by (simp add: visit_def Let_def split: option.splits)

lemma walkDir_no_error:
  "(\<And>path d err rootNode. snd (fn path d err rootNode) \<noteq> WalkErr e) \<Longrightarrow>
     snd (walkDir fn path d rootNode) \<noteq> WalkErr e"
  "(\<And>path d err rootNode. snd (fn path d err rootNode) \<noteq> WalkErr e) \<Longrightarrow>
     snd (walkDir_entries fn path ds rootNode) \<noteq> WalkErr e"
proof (induction fn path d rootNode and fn path ds rootNode rule: walkDir_walkDir_entries.induct)
  case (1 fn path n rootNode)
  then show ?case by simp
next
  case (2 fn path n entries rootNode)
  obtain root1 r where f: "fn path (Some (Dir n entries)) False rootNode = (root1, r)"
    by (cases "fn path (Some (Dir n entries)) False rootNode")
  have "r \<noteq> WalkErr e" using "2.prems"[of path "Some (Dir n entries)" False rootNode] f by simp
  with f "2.IH"[OF f[symmetric] _ "2.prems"] show ?case
    by (auto split: if_splits)
next
  case (3 fn path n rootNode)
  obtain root1 r where f: "fn path (Some (Unreadable n)) False rootNode = (root1, r)"
    by (cases "fn path (Some (Unreadable n)) False rootNode")
  obtain root2 r2 where g: "fn path (Some (Unreadable n)) True root1 = (root2, r2)"
    by (cases "fn path (Some (Unreadable n)) True root1")
  have "r \<noteq> WalkErr e" using "3.prems"[of path "Some (Unreadable n)" False rootNode] f by simp
  moreover have "r2 \<noteq> WalkErr e" using "3.prems"[of path "Some (Unreadable n)" True root1] g by simp
  ultimately show ?case using f g by auto
next
  case (4 fn path rootNode)
  then show ?case by simp
next
  case (5 fn path d1 rest rootNode)
  obtain root1 r where f: "walkDir fn (path @ [entry_Name d1]) d1 rootNode = (root1, r)"
    by (cases "walkDir fn (path @ [entry_Name d1]) d1 rootNode")
  have "r \<noteq> WalkErr e" using "5.IH"(1)[OF "5.prems"] f by simp
  with f "5.IH"(2)[OF f[symmetric] _ "5.prems"] show ?case
    by (auto split: if_splits)
qed

lemma WalkDir_no_error: "snd (WalkDir fs (visit lower dir ignore incl maxDepth) rootNode) = None"
proof -
  let ?fn = "visit lower dir ignore incl maxDepth"
  have v: "\<And>e path d err rootNode. snd (?fn path d err rootNode) \<noteq> WalkErr e"
    by (rule visit_no_error)
  show ?thesis
  proof (cases "root_entry fs")
    case None
    then show ?thesis
      by (simp add: WalkDir_def visit_def)
  next
    case (Some info)
    obtain root1 r where w: "walkDir ?fn [] info rootNode = (root1, r)"
      by (cases "walkDir ?fn [] info rootNode")
    have "\<And>e. r \<noteq> WalkErr e"
      using walkDir_no_error(1)[of ?fn _ "[]" info rootNode, OF v] w by simp
    then have "(case r of WalkErr e \<Rightarrow> Some e | _ \<Rightarrow> None) = None"
      by (cases r) auto
    with Some w show ?thesis
      by (simp add: WalkDir_def)
  qed
qed


subsection \<open>What the scans return\<close>

text \<open>
  Claim C8. Both scans return a tree (and a nil error), and in that tree the children
  of every node are sorted: directories before the other children, each group by
  lower-cased name in non-decreasing order. The lower-casing is the library's
  \<open>strings.ToLower\<close>, whatever its tables are: the theorem holds for every function
  \<open>ToLower fs\<close>.
\<close>

theorem C8_scanned_tree_sorted:
  "(\<exists>t. FindMarkdownFilesQuick fs dir incl = (Some t, None) \<and> tree_sorted (ToLower fs) t)
   \<and> (\<exists>t. FindMarkdownFilesWithDepth fs dir incl maxDepth = (Some t, None)
          \<and> tree_sorted (ToLower fs) t)"
proof
  show "\<exists>t. FindMarkdownFilesQuick fs dir incl = (Some t, None) \<and> tree_sorted (ToLower fs) t"
  proof (cases "ReadDir fs")
    case None
    then show ?thesis
      by (simp add: FindMarkdownFilesQuick_def new_root_def children_sorted_def)
  next
    case (Some entries)
    then show ?thesis
      by (simp add: FindMarkdownFilesQuick_def tree_sorted_sortTree)
  qed
next
  let ?w = "WalkDir fs (visit (ToLower fs) dir (load_ignore fs incl) incl maxDepth)
              (new_root dir)"
  obtain root1 err where w: "?w = (root1, err)"
    by (cases ?w)
  have "err = None"
    using WalkDir_no_error[of fs "ToLower fs" dir "load_ignore fs incl" incl
            maxDepth "new_root dir"] w
    by simp
  with w show "\<exists>t. FindMarkdownFilesWithDepth fs dir incl maxDepth = (Some t, None)
                 \<and> tree_sorted (ToLower fs) t"
    by (simp add: FindMarkdownFilesWithDepth_def tree_sorted_sortTree)
qed

lemma scenario_scan:
  "FindMarkdownFilesWithDepth scenario_fs ''/proj'' False 1 = (Some scenario_tree, None)"
  by (simp add: scenario_fs_def scenario_tree_def FindMarkdownFilesWithDepth_def WalkDir_def
        visit_def new_root_def Rel_def Let_def load_ignore_def Base_def separator_def
        HasPrefix_def HasSuffix_def ascii_ToLower_def lower_char_def addToTree_def Join_def
        sort_Slice_def less_child_def)

text \<open>
  With a lower-casing that knows the accented capitals, the two documents of
  \<open>accent_fs\<close> come back in the order of their lower-cased names, the reverse of their
  byte order.
\<close>

lemma accent_scan:
  "FindMarkdownFilesQuick accent_fs ''/proj'' False = (Some accent_tree, None)
   \<and> FindMarkdownFilesWithDepth accent_fs ''/proj'' False 0 = (Some accent_tree, None)"
  by code_simp

theorem C8_scanned_tree_sorted_witness:
  "FindMarkdownFilesQuick accent_fs ''/proj'' False = (Some accent_tree, None)
   \<and> FindMarkdownFilesWithDepth accent_fs ''/proj'' False 0 = (Some accent_tree, None)
   \<and> ToLower accent_fs = latin1_ToLower
   \<and> tree_sorted latin1_ToLower accent_tree"
proof -
  have l: "ToLower accent_fs = latin1_ToLower"
    by (simp add: accent_fs_def)
  from C8_scanned_tree_sorted[of accent_fs "''/proj''" False 0] obtain t where
    t: "FindMarkdownFilesQuick accent_fs ''/proj'' False = (Some t, None)"
       "tree_sorted (ToLower accent_fs) t"
    by blast
  from t(1) accent_scan have "t = accent_tree"
    by simp
  with t(2) l accent_scan show ?thesis
    by simp
qed

text \<open>
  Claim C7. When the entries of the root cannot be read (the root is missing, is not a
  directory, or its listing fails), the quick scan and the depth-bounded scan at any
  depth both return the bare root node, a directory without children, and a nil error.
\<close>

theorem C7_unreadable_root_gives_empty_root:
  assumes "root_unreadable fs"
  shows "FindMarkdownFilesQuick fs dir incl
           = (Some (FileNode (Base dir) dir True []), None)
         \<and> FindMarkdownFilesWithDepth fs dir incl maxDepth
           = (Some (FileNode (Base dir) dir True []), None)"
proof
  show "FindMarkdownFilesQuick fs dir incl
          = (Some (FileNode (Base dir) dir True []), None)"
    using assms by (simp add: root_unreadable_def FindMarkdownFilesQuick_def new_root_def)
  show "FindMarkdownFilesWithDepth fs dir incl maxDepth
          = (Some (FileNode (Base dir) dir True []), None)"
  proof (cases "root_entry fs")
    case None
    then show ?thesis
      by (simp add: FindMarkdownFilesWithDepth_def WalkDir_def visit_def new_root_def)
  next
    case (Some info)
    with assms show ?thesis
      by (cases info)
         (simp_all add: root_unreadable_def ReadDir_def FindMarkdownFilesWithDepth_def
            WalkDir_def visit_def new_root_def Rel_def Let_def)
  qed
qed

theorem C7_unreadable_root_gives_empty_root_witness:
  "root_unreadable missing_fs
   \<and> FindMarkdownFilesQuick missing_fs ''/nonexistent/directory'' False
       = (Some (FileNode ''directory'' ''/nonexistent/directory'' True []), None)
   \<and> FindMarkdownFilesWithDepth missing_fs ''/nonexistent/directory'' False 3
       = (Some (FileNode ''directory'' ''/nonexistent/directory'' True []), None)"
proof -
  have u: "root_unreadable missing_fs"
    by (simp add: root_unreadable_def ReadDir_def missing_fs_def)
  have b: "Base ''/nonexistent/directory'' = ''directory''"
    by (simp add: Base_def separator_def)
  from C7_unreadable_root_gives_empty_root[OF u, of "''/nonexistent/directory''" False 3] u b
  show ?thesis
    by simp
qed

subsection \<open>Hidden entries\<close>

text \<open>
  The quick scan skips every entry whose name starts with a dot, so the nodes it adds
  below the root have no such name. (File names do not contain the separator, which is
  what makes the relative path of an entry of the root a single part.)
\<close>

lemma Split_without_separator: "sep \<notin> set s \<Longrightarrow> Split s sep = [s]"
  by (induction s) auto

lemma replace_first_same: "replace_first P (addToTree_parts basePath isDir seen []) xs = xs"
  by (induction xs) auto

lemma addToTree_single:
  assumes "separator \<notin> set name"
  shows "set (Children (addToTree rootNode basePath [name] isDir))
           \<subseteq> insert (FileNode name (Join basePath name) isDir []) (set (Children rootNode))"
  using assms
  by (auto simp: addToTree_def Rel_def Split_without_separator replace_first_same)

definition quick_children_ok :: "FileNode \<Rightarrow> bool" where
  "quick_children_ok rootNode =
     (\<forall>c\<in>set (Children rootNode). \<not> HasPrefix (Name c) ''.'' \<and> Children c = [])"

lemma quick_entry_children_ok:
  assumes "separator \<notin> set (entry_Name e)" and "quick_children_ok rootNode"
  shows "quick_children_ok (quick_entry lower ignore incl dir e rootNode)"
proof -
  have "quick_children_ok (addToTree rootNode dir [entry_Name e] d)"
    if "\<not> HasPrefix (entry_Name e) ''.''" for d
    using addToTree_single[OF assms(1), of rootNode dir d] assms(2) that
    unfolding quick_children_ok_def by fastforce
  with assms(2) show ?thesis
    by (simp add: quick_entry_def Let_def)
qed

lemma fold_quick_entry_children_ok:
  "\<forall>e\<in>set entries. separator \<notin> set (entry_Name e) \<Longrightarrow> quick_children_ok rootNode \<Longrightarrow>
     quick_children_ok (fold (quick_entry lower ignore incl dir) entries rootNode)"
  by (induction entries arbitrary: rootNode) (simp_all add: quick_entry_children_ok)

lemma sortTree_leaf: "Children c = [] \<Longrightarrow> sortTree lower c = c"
  by (cases c) simp

lemma sortTree_children_ok: "quick_children_ok rootNode \<Longrightarrow> quick_children_ok (sortTree lower rootNode)"
  by (cases rootNode) (auto simp: quick_children_ok_def sortTree_leaf)

lemma FindMarkdownFilesQuick_no_hidden:
  assumes "\<forall>entries. ReadDir fs = Some entries \<longrightarrow>
             (\<forall>e\<in>set entries. separator \<notin> set (entry_Name e))"
    and "FindMarkdownFilesQuick fs dir incl = (Some t, err)"
    and "c \<in> set (Children t)"
  shows "\<not> HasPrefix (Name c) ''.'' \<and> Children c = []"
proof -
  have "quick_children_ok t"
  proof (cases "ReadDir fs")
    case None
    with assms(2) show ?thesis
      by (auto simp: FindMarkdownFilesQuick_def new_root_def quick_children_ok_def)
  next
    case (Some entries)
    have "quick_children_ok (new_root dir)"
      by (simp add: new_root_def quick_children_ok_def)
    with Some assms(1) have "quick_children_ok
        (sortTree (ToLower fs) (fold (quick_entry (ToLower fs) (load_ignore fs incl) incl dir)
           entries (new_root dir)))"
      by (simp add: fold_quick_entry_children_ok sortTree_children_ok)
    with Some assms(2) show ?thesis
      by (auto simp: FindMarkdownFilesQuick_def)
  qed
  with assms(3) show ?thesis
    by (simp add: quick_children_ok_def)
qed

text \<open>
  Claim C1 fails on the depth-bounded scan. Its callback skips a hidden entry only when
  the entry is a directory, so a document whose name starts with a dot is added to the
  tree, at every \<open>maxDepth\<close>, while the quick scan of the same directory leaves it out.
\<close>

theorem C1_hidden_document_kept:
  "FindMarkdownFilesWithDepth hidden_fs ''/proj'' incl maxDepth
     = (Some (FileNode ''proj'' ''/proj'' True
               [FileNode ''.hidden.md'' ''/proj/.hidden.md'' False []]), None)
   \<and> FindMarkdownFilesQuick hidden_fs ''/proj'' incl
     = (Some (FileNode ''proj'' ''/proj'' True []), None)"
proof
  show "FindMarkdownFilesWithDepth hidden_fs ''/proj'' incl maxDepth
     = (Some (FileNode ''proj'' ''/proj'' True
               [FileNode ''.hidden.md'' ''/proj/.hidden.md'' False []]), None)"
    by (simp add: hidden_fs_def FindMarkdownFilesWithDepth_def WalkDir_def visit_def
          new_root_def Rel_def Let_def load_ignore_def Base_def separator_def HasPrefix_def
          HasSuffix_def ascii_ToLower_def lower_char_def addToTree_def Join_def sort_Slice_def)
  show "FindMarkdownFilesQuick hidden_fs ''/proj'' incl
     = (Some (FileNode ''proj'' ''/proj'' True []), None)"
    by (simp add: hidden_fs_def FindMarkdownFilesQuick_def ReadDir_def quick_entry_def
          new_root_def HasPrefix_def Base_def separator_def)
qed

subsection \<open>The root of a scanned tree\<close>

text \<open>
  Every tree a scan returns has a directory as its root: the scans create the root as a
  directory, and inserting and sorting never change a node's \<open>IsDir\<close>.
\<close>

lemma addToTree_parts_IsDir [simp]:
  "IsDir (addToTree_parts basePath isDir seen parts current) = IsDir current"
  by (cases parts) simp_all

lemma addToTree_IsDir [simp]: "IsDir (addToTree rootNode basePath fullPath isDir) = IsDir rootNode"
  by (simp add: addToTree_def)

lemma quick_entry_IsDir [simp]:
  "IsDir (quick_entry lower ignore incl dir e rootNode) = IsDir rootNode"
  by (simp add: quick_entry_def Let_def)

lemma fold_quick_entry_IsDir [simp]:
  "IsDir (fold (quick_entry lower ignore incl dir) entries rootNode) = IsDir rootNode"
  by (induction entries arbitrary: rootNode) simp_all

lemma visit_IsDir [simp]:
  "IsDir (fst (visit lower dir ignore incl maxDepth path d err rootNode)) = IsDir rootNode"
  by (simp add: visit_def Let_def split: option.splits)

lemma walkDir_IsDir:
  "(\<And>path d err rootNode. IsDir (fst (fn path d err rootNode)) = IsDir rootNode) \<Longrightarrow>
     IsDir (fst (walkDir fn path d rootNode)) = IsDir rootNode"
  "(\<And>path d err rootNode. IsDir (fst (fn path d err rootNode)) = IsDir rootNode) \<Longrightarrow>
     IsDir (fst (walkDir_entries fn path ds rootNode)) = IsDir rootNode"
proof (induction fn path d rootNode and fn path ds rootNode rule: walkDir_walkDir_entries.induct)
  case (1 fn path n rootNode)
  then show ?case by simp
next
  case (2 fn path n entries rootNode)
  obtain root1 r where f: "fn path (Some (Dir n entries)) False rootNode = (root1, r)"
    by (cases "fn path (Some (Dir n entries)) False rootNode")
  have "IsDir root1 = IsDir rootNode"
    using "2.prems"[of path "Some (Dir n entries)" False rootNode] f by simp
  with f "2.IH"[OF f[symmetric] _ "2.prems"] show ?case
    by (auto split: if_splits)
next
  case (3 fn path n rootNode)
  obtain root1 r where f: "fn path (Some (Unreadable n)) False rootNode = (root1, r)"
    by (cases "fn path (Some (Unreadable n)) False rootNode")
  obtain root2 r2 where g: "fn path (Some (Unreadable n)) True root1 = (root2, r2)"
    by (cases "fn path (Some (Unreadable n)) True root1")
  have "IsDir root1 = IsDir rootNode"
    using "3.prems"[of path "Some (Unreadable n)" False rootNode] f by simp
  moreover have "IsDir root2 = IsDir root1"
    using "3.prems"[of path "Some (Unreadable n)" True root1] g by simp
  ultimately show ?case using f g by auto
next
  case (4 fn path rootNode)
  then show ?case by simp
next
  case (5 fn path d1 rest rootNode)
  obtain root1 r where f: "walkDir fn (path @ [entry_Name d1]) d1 rootNode = (root1, r)"
    by (cases "walkDir fn (path @ [entry_Name d1]) d1 rootNode")
  have "IsDir root1 = IsDir rootNode" using "5.IH"(1)[OF "5.prems"] f by simp
  with f "5.IH"(2)[OF f[symmetric] _ "5.prems"] show ?case
    by (auto split: if_splits)
qed

lemma WalkDir_IsDir:
  "IsDir (fst (WalkDir fs (visit lower dir ignore incl maxDepth) rootNode)) = IsDir rootNode"
proof (cases "root_entry fs")
  case None
  then show ?thesis
    by (simp add: WalkDir_def visit_def)
next
  case (Some info)
  obtain root1 r where w: "walkDir (visit lower dir ignore incl maxDepth) [] info rootNode = (root1, r)"
    by (cases "walkDir (visit lower dir ignore incl maxDepth) [] info rootNode")
  have "IsDir root1 = IsDir rootNode"
    using walkDir_IsDir(1)[of "visit lower dir ignore incl maxDepth" "[]" info rootNode] w by simp
  with Some w show ?thesis
    by (simp add: WalkDir_def)
qed

lemma scan_root_is_directory:
  "FindMarkdownFilesQuick fs dir incl = (Some t, e) \<Longrightarrow> IsDir t"
  "FindMarkdownFilesWithDepth fs dir incl maxDepth = (Some t, e) \<Longrightarrow> IsDir t"
proof -
  show "FindMarkdownFilesQuick fs dir incl = (Some t, e) \<Longrightarrow> IsDir t"
    by (auto simp: FindMarkdownFilesQuick_def new_root_def Let_def split: option.splits)
  show "FindMarkdownFilesWithDepth fs dir incl maxDepth = (Some t, e) \<Longrightarrow> IsDir t"
  proof -
    assume a: "FindMarkdownFilesWithDepth fs dir incl maxDepth = (Some t, e)"
    let ?w = "WalkDir fs (visit (ToLower fs) dir (load_ignore fs incl) incl maxDepth) (new_root dir)"
    obtain root1 err where w: "?w = (root1, err)" by (cases ?w)
    have "IsDir root1"
      using WalkDir_IsDir[of fs "ToLower fs" dir "load_ignore fs incl" incl maxDepth "new_root dir"] w
      by (simp add: new_root_def)
    with a w show "IsDir t"
      by (auto simp: FindMarkdownFilesWithDepth_def Let_def split: option.splits)
  qed
qed

text \<open>
  A root that is itself a document is listed by \<open>CollectFiles\<close> and gets no line from
  \<open>FlattenTree\<close>; no scan returns such a root.
\<close>

lemma document_root_has_no_line:
  "CollectFiles (FileNode ''a.md'' ''/a.md'' False []) = [''/a.md'']
   \<and> FlattenTree (FileNode ''a.md'' ''/a.md'' False []) [] False = Some []"
  by simp

section \<open>Properties of the controller\<close>

subsection \<open>What the helpers leave unchanged\<close>


lemma viewport_ok_cong:
  "contentViewport m' = contentViewport m \<Longrightarrow> renderedLines m' = renderedLines m
   \<Longrightarrow> height m' = height m \<Longrightarrow> viewport_ok m' = viewport_ok m"
  by (simp add: viewport_ok_def)


lemma ensureRenderer_frame:
  "contentViewport (fst (ensureRenderer g (m, c))) = contentViewport m"
  "height (fst (ensureRenderer g (m, c))) = height m"
  "renderedLines (fst (ensureRenderer g (m, c))) = renderedLines m"
  "currentContent (fst (ensureRenderer g (m, c))) = currentContent m"
  by (simp_all add: ensureRenderer_def split: option.splits sum.splits)

lemma refreshContent_frame:
  "contentViewport (fst (refreshContent g (m, c))) = contentViewport m"
  "height (fst (refreshContent g (m, c))) = height m"
proof -
  obtain m1 c1 where e: "ensureRenderer g (m, c) = (m1, c1)"
    by (cases "ensureRenderer g (m, c)")
  from ensureRenderer_frame(1,2)[of g m c] e
  have f: "contentViewport m1 = contentViewport m" "height m1 = height m"
    by simp_all
  show "contentViewport (fst (refreshContent g (m, c))) = contentViewport m"
    using e f by (simp add: refreshContent_def Let_def split: option.splits)
  show "height (fst (refreshContent g (m, c))) = height m"
    using e f by (simp add: refreshContent_def Let_def split: option.splits)
qed


lemma loadFile_height: "height (fst (loadFile fs g i (m, c))) = height m"
proof (cases "i < 0 \<or> i \<ge> len (allFiles m)")
  case True
  then show ?thesis by (simp add: loadFile_def)
next
  case False
  show ?thesis
  proof (cases "ReadFile fs (allFiles m ! nat i)")
    case (Inl e)
    with False show ?thesis by (simp add: loadFile_def)
  next
    case (Inr t)
    obtain m1 c1 where r: "refreshContent g (m\<lparr>currentContent := t\<rparr>, c) = (m1, c1)"
      by (cases "refreshContent g (m\<lparr>currentContent := t\<rparr>, c)")
    with refreshContent_frame(2)[of g "m\<lparr>currentContent := t\<rparr>" c]
    have "height m1 = height m" by simp
    with False Inr r show ?thesis by (simp add: loadFile_def)
  qed
qed






subsection \<open>The render fallback\<close>

lemma refreshContent_fallback:
  assumes "raw m
     \<or> renderer (fst (ensureRenderer g (m, cache))) = None
     \<or> (\<exists>r e. renderer (fst (ensureRenderer g (m, cache))) = Some r
              \<and> Render g r (currentContent m) = Inl e)"
  shows "renderedLines (fst (refreshContent g (m, cache))) = Split (currentContent m) newline"
proof -
  obtain m1 c1 where e: "ensureRenderer g (m, cache) = (m1, c1)"
    by (cases "ensureRenderer g (m, cache)")
  with ensureRenderer_frame(4)[of g m cache] have "currentContent m1 = currentContent m"
    by simp
  with assms e show ?thesis
    by (auto simp: refreshContent_def Let_def split: option.splits sum.splits)
qed

lemma single_file_fallback:
  assumes "SingleFileModel.raw s \<or> SingleFileModel.renderer s = None
     \<or> SingleFileModel.content s = []
     \<or> (\<exists>r e. SingleFileModel.renderer s = Some r
              \<and> Render g r (SingleFileModel.content s) = Inl e)"
  shows "SingleFileModel.lines (deliver_rendered g s)
           = Split (SingleFileModel.content s) newline"
  using assms
  by (auto simp: deliver_rendered_def renderContentAsync_def split: option.splits sum.splits)

lemma Split_scenario_D: "Split scenario_D newline = [''# H'', [], ''body'']"
  by (simp add: scenario_D_def newline_def)

text \<open>
  Claim C9. In the dual-pane model, \<open>refreshContent\<close> sets the rendered lines to the
  content split at line breaks whenever raw mode is set, no renderer can be had, or the
  renderer fails. The single-file pipeline (\<open>renderContentAsync\<close> and the message it
  delivers) does the same, also for empty content. In raw mode the content of
  Scenario D gives the three lines \<open># H\<close>, the empty line and \<open>body\<close>.
\<close>

theorem C9_fallback_is_verbatim_split:
  "(raw m
      \<or> renderer (fst (ensureRenderer g (m, cache))) = None
      \<or> (\<exists>r e. renderer (fst (ensureRenderer g (m, cache))) = Some r
               \<and> Render g r (currentContent m) = Inl e)
    \<longrightarrow> renderedLines (fst (refreshContent g (m, cache))) = Split (currentContent m) newline)
   \<and> (SingleFileModel.raw s \<or> SingleFileModel.renderer s = None
      \<or> SingleFileModel.content s = []
      \<or> (\<exists>r e. SingleFileModel.renderer s = Some r
               \<and> Render g r (SingleFileModel.content s) = Inl e)
    \<longrightarrow> SingleFileModel.lines (deliver_rendered g s)
          = Split (SingleFileModel.content s) newline)
   \<and> (raw m \<and> currentContent m = scenario_D
    \<longrightarrow> renderedLines (fst (refreshContent g (m, cache))) = [''# H'', [], ''body''])"
proof (intro conjI impI)
  assume "raw m
      \<or> renderer (fst (ensureRenderer g (m, cache))) = None
      \<or> (\<exists>r e. renderer (fst (ensureRenderer g (m, cache))) = Some r
               \<and> Render g r (currentContent m) = Inl e)"
  then show "renderedLines (fst (refreshContent g (m, cache))) = Split (currentContent m) newline"
    by (rule refreshContent_fallback)
next
  assume "SingleFileModel.raw s \<or> SingleFileModel.renderer s = None
      \<or> SingleFileModel.content s = []
      \<or> (\<exists>r e. SingleFileModel.renderer s = Some r
               \<and> Render g r (SingleFileModel.content s) = Inl e)"
  then show "SingleFileModel.lines (deliver_rendered g s)
          = Split (SingleFileModel.content s) newline"
    by (rule single_file_fallback)
next
  assume a: "raw m \<and> currentContent m = scenario_D"
  then have "renderedLines (fst (refreshContent g (m, cache))) = Split (currentContent m) newline"
    by (intro refreshContent_fallback) simp
  with a show "renderedLines (fst (refreshContent g (m, cache))) = [''# H'', [], ''body'']"
    by (simp add: Split_scenario_D)
qed

theorem C9_fallback_is_verbatim_split_witness:
  "raw (rendered_model\<lparr>raw := True\<rparr>)
   \<and> currentContent (rendered_model\<lparr>raw := True\<rparr>) = scenario_D
   \<and> renderedLines (fst (refreshContent example_glamour
        (rendered_model\<lparr>raw := True\<rparr>, one_renderer))) = [''# H'', [], ''body'']
   \<and> SingleFileModel.raw raw_single
   \<and> SingleFileModel.lines (deliver_rendered example_glamour raw_single)
       = [''# H'', [], ''body'']"
proof -
  have r: "raw (rendered_model\<lparr>raw := True\<rparr>)"
    by simp
  have c: "currentContent (rendered_model\<lparr>raw := True\<rparr>) = scenario_D"
    by (simp add: rendered_model_def)
  have s: "SingleFileModel.raw raw_single" "SingleFileModel.content raw_single = scenario_D"
    by (simp_all add: raw_single_def)
  from C9_fallback_is_verbatim_split[of "rendered_model\<lparr>raw := True\<rparr>" example_glamour
         one_renderer raw_single] r c s
  show ?thesis
    by (simp add: Split_scenario_D)
qed

subsection \<open>Progressive deepening\<close>

text \<open>
  Claim C5. A deepening step that runs (no scan is in flight) and whose scan fails or
  finds no more documents than the File Index holds leaves the tree, the File Index,
  the display lines, the selected index and the selected line as they are, and the
  depth counter is one more than before.
\<close>

theorem C5_deepening_without_new_documents:
  assumes "\<not> isExpanding m"
    and "FindMarkdownFilesWithDepth fs (rootPath m) (includeIgnored m) (currentDepth m + 1)
           = (newTree, err)"
    and "err \<noteq> None \<or> length (CollectFiles_ptr newTree) \<le> length (allFiles m)"
  shows "\<exists>m' cmd. Update fs g (m, cache) performExpansionMsg = Some ((m', cache), cmd)
           \<and> fileTree m' = fileTree m
           \<and> allFiles m' = allFiles m
           \<and> treeLines m' = treeLines m
           \<and> selectedIndex m' = selectedIndex m
           \<and> treeSelectedIdx m' = treeSelectedIdx m
           \<and> currentDepth m' = currentDepth m + 1"
proof -
  have "Update fs g (m, cache) performExpansionMsg
          = Some ((m\<lparr>isExpanding := True, currentDepth := currentDepth m + 1\<rparr>
                     \<lparr>isExpanding := False\<rparr>, cache),
                  if currentDepth m + 1 < 5 then TickPerformExpansion else NoCmd)"
    using assms(1,3)
    by (auto simp: Update_performExpansion_def Let_def assms(2) expandTree_def)
  then show ?thesis
    by simp
qed

lemma scenario_scan_deeper:
  "FindMarkdownFilesWithDepth scenario_fs ''/proj'' False 2 = (Some scenario_tree, None)"
  by (simp add: scenario_fs_def scenario_tree_def FindMarkdownFilesWithDepth_def WalkDir_def
        visit_def new_root_def Rel_def Let_def load_ignore_def Base_def separator_def
        HasPrefix_def HasSuffix_def ascii_ToLower_def lower_char_def addToTree_def Join_def
        sort_Slice_def less_child_def)

theorem C5_deepening_without_new_documents_witness:
  "\<not> isExpanding deepened_model
   \<and> FindMarkdownFilesWithDepth scenario_fs (rootPath deepened_model)
        (includeIgnored deepened_model) (currentDepth deepened_model + 1)
       = (Some scenario_tree, None)
   \<and> length (CollectFiles_ptr (Some scenario_tree)) \<le> length (allFiles deepened_model)
   \<and> (\<exists>m' cmd. Update scenario_fs example_glamour (deepened_model, Map.empty)
                   performExpansionMsg = Some ((m', Map.empty), cmd)
        \<and> fileTree m' = fileTree deepened_model
        \<and> allFiles m' = allFiles deepened_model
        \<and> treeLines m' = treeLines deepened_model
        \<and> selectedIndex m' = selectedIndex deepened_model
        \<and> treeSelectedIdx m' = treeSelectedIdx deepened_model
        \<and> currentDepth m' = 2)"
proof -
  have e: "\<not> isExpanding deepened_model"
    by (simp add: deepened_model_def NewDualPaneModel_def)
  have d: "rootPath deepened_model = ''/proj''" "includeIgnored deepened_model = False"
          "currentDepth deepened_model + 1 = 2"
    by (simp_all add: deepened_model_def NewDualPaneModel_def)
  have s: "FindMarkdownFilesWithDepth scenario_fs (rootPath deepened_model)
             (includeIgnored deepened_model) (currentDepth deepened_model + 1)
           = (Some scenario_tree, None)"
    using scenario_scan_deeper by (simp add: d)
  have n: "length (CollectFiles_ptr (Some scenario_tree)) \<le> length (allFiles deepened_model)"
    by (simp add: CollectFiles_ptr_def scenario_tree_def deepened_model_def)
  from n have n': "None \<noteq> None \<or> length (CollectFiles_ptr (Some scenario_tree))
                     \<le> length (allFiles deepened_model)"
    by simp
  from C5_deepening_without_new_documents[OF e s n', of example_glamour Map.empty] e s n d
  show ?thesis
    by simp
qed

subsection \<open>A failed load\<close>

lemma loadFile_failure:
  assumes "0 \<le> i" and "i < len (allFiles m)"
    and "ReadFile fs (allFiles m ! nat i) = Inl e"
  shows "loadFile fs g i (m, c)
           = (m\<lparr>currentContent := ''Error loading file: '' @ e,
                 renderedLines := Split (''Error loading file: '' @ e) newline\<rparr>, c)"
  using assms by (simp add: loadFile_def)

text \<open>
  Claim C3 fails on the failure path. \<open>loadFile\<close> returns right after it has stored the
  error line, before the statement that resets the content viewport. Moving the
  selection up to a document that cannot be read replaces the lines by the one error
  line and leaves the viewport at 5.
\<close>

theorem C3_failed_load_keeps_viewport:
  "map_option (\<lambda>st. (selectedIndex (fst st), renderedLines (fst st), contentViewport (fst st)))
     (run unreadable_fs example_glamour (scrolled_model, one_renderer) [KeyMsg ''k''])
   = Some (0, [''Error loading file: open /proj/a.md: permission denied''], 5)"
  by code_simp

subsection \<open>The split ratio\<close>

lemma splitRatio_stays_in_range:
  assumes "2 / 10 \<le> splitRatio m" and "splitRatio m \<le> 5 / 10"
    and "key \<in> {''<'', ''{'', ''>'', ''}''}"
  shows "2 / 10 \<le> splitRatio (fst (fst (Update_KeyMsg fs g (m, c) key)))
         \<and> splitRatio (fst (fst (Update_KeyMsg fs g (m, c) key))) \<le> 5 / 10"
proof -
  have u: "splitRatio (fst (updateRendererWidth g (m', c))) = splitRatio m'" for m'
  proof -
    have e: "splitRatio (fst (ensureRenderer g (m'', c''))) = splitRatio m''" for m'' c''
      by (simp add: ensureRenderer_def split: option.splits sum.splits)
    have r: "splitRatio (fst (refreshContent g (m'', c''))) = splitRatio m''" for m'' c''
    proof -
      obtain m1 c1 where x: "ensureRenderer g (m'', c'') = (m1, c1)"
        by (cases "ensureRenderer g (m'', c'')")
      with e[of m'' c''] have "splitRatio m1 = splitRatio m''" by simp
      with x show ?thesis
        by (simp add: refreshContent_def Let_def split: option.splits)
    qed
    show ?thesis
      by (simp add: updateRendererWidth_def r split: option.splits sum.splits)
  qed
  from assms show ?thesis
    by (auto simp: Update_KeyMsg_def u maxFloat_def minFloat_def)
qed

lemma updateRendererWidth_cache_hit:
  assumes "c (wrappingWidth m) = Some r"
  shows "updateRendererWidth g (m, c) = (m\<lparr>renderer := Some r\<rparr>, c)"
  using assms by (simp add: updateRendererWidth_def)

text \<open>
  Claim C4 fails when the renderer of the new wrap width is already in the cache:
  \<open>updateRendererWidth\<close> takes the cached renderer and returns, and only the path that
  creates a renderer goes on to \<open>refreshContent\<close>. With a window 101 columns wide,
  narrowing the tree pane renders at width 69; widening it again finds the renderer of
  width 64 in the cache and keeps the lines rendered at width 69, which a re-render
  would replace.
\<close>

theorem C4_cached_width_not_rerendered:
  "map_option (\<lambda>st. (renderer (fst st), wrappingWidth (fst st), renderedLines (fst st),
                  renderedLines (fst (refreshContent example_glamour st))))
     (run scenario_fs example_glamour (loaded_model, Map.empty)
        [WindowSizeMsg 101 40, KeyMsg ''<'', KeyMsg ''>''])
   = Some (Some (TermRenderer 64), 64, [[], ''wide'', ''doc'', []], [[], ''narrow'', ''doc'', []])"
  by code_simp

subsection \<open>The content viewport\<close>


text \<open>
  Before the first window size arrives the height is 0, and half a page is a negative
  number of lines: the page-down key then moves the offset below 0.
\<close>

lemma page_down_before_resize:
  "map_option (\<lambda>st. contentViewport (fst st))
     (run scenario_fs example_glamour (NewDualPaneModel ''/proj'' False, Map.empty)
        [KeyMsg ''l'', KeyMsg ''pgdown''])
   = Some (- 1)"
  by code_simp



end
